theory Spec2Isabelle
  imports Complex_Main "HOL-Library.Word" "HOL-Library.Sublist"
begin

section \<open>The vendor boot image extractor (main.c)\<close>

text \<open>
  A shallow embedding of \<^verbatim>\<open>main.c\<close>. The program reads a fixed-size header from the
  image, checks its magic, and copies two page-aligned segments (vendor ramdisk and dtb)
  into two files with fixed names.

  Conventions of the embedding:
  \<^item> \<^verbatim>\<open>uint8_t\<close>, \<^verbatim>\<open>uint32_t\<close>, \<^verbatim>\<open>uint64_t\<close> are words; their arithmetic wraps.
  \<^item> The host is little-endian and LP64 (gcc on Linux, as the Makefile builds it):
    \<^verbatim>\<open>long\<close> has 64 bits, so every \<^verbatim>\<open>uint32_t\<close> value converts to \<^verbatim>\<open>long\<close> unchanged and
    the sum of two of them does not overflow; such values are natural numbers here.
  \<^item> The file system is a map from path names to contents. Distinct names are distinct
    files.
  \<^item> The C library reads and writes through buffers of its own. For reading, the source
    determines the bytes only as long as the file is what it was when the stream was
    opened; once the image has been overwritten under the open stream (it is itself named
    like an output file), what \<^verbatim>\<open>fread\<close> returns depends on the buffer, and the run has
    the outcome \<open>Unspecified\<close>. For writing, the environment decides whether a short write
    is noticed by \<^verbatim>\<open>fwrite\<close> or only by \<^verbatim>\<open>fclose\<close>, whose result \<^verbatim>\<open>main\<close> ignores.
  \<^item> What the C standard leaves undefined (division by zero, a string scan that leaves
    its object, writing through a null pointer) is an outcome of its own, \<open>Crashed\<close>.
  \<^item> What the environment decides (allocation, seeking, opening and writing files, read
    faults) is a parameter of type \<open>env\<close>.
\<close>

subsection \<open>Constants\<close>

type_synonym byte = "8 word"
type_synonym u32 = "32 word"
type_synonym u64 = "64 word"

definition VENDOR_BOOT_MAGIC :: "byte list" where
  "VENDOR_BOOT_MAGIC = map of_char ''VNDRBOOT''"

definition VENDOR_BOOT_MAGIC_SIZE :: nat where
  "VENDOR_BOOT_MAGIC_SIZE = 8"

definition VENDOR_BOOT_ARGS_SIZE :: nat where
  "VENDOR_BOOT_ARGS_SIZE = 2048"

definition VENDOR_BOOT_NAME_SIZE :: nat where
  "VENDOR_BOOT_NAME_SIZE = 16"

text \<open>An \<^verbatim>\<open>int\<close> constant in the source; the alignment macro converts it to unsigned.\<close>

definition VENDOR_HEADER_SIZE :: int where
  "VENDOR_HEADER_SIZE = 2112"

definition VENDOR_RAMDISK :: string where
  "VENDOR_RAMDISK = ''vendor_ramdisk.img''"

definition VENDOR_DTB :: string where
  "VENDOR_DTB = ''vendor_dtb.img''"

subsection \<open>The macros PAGES and ALIGN\<close>

text \<open>
  Both uses of \<^verbatim>\<open>ALIGN\<close> have a \<^verbatim>\<open>uint32_t\<close> page size, so the whole expression is computed
  in 32-bit unsigned arithmetic. Division by a zero page size is undefined in C: \<open>None\<close>.
\<close>

definition PAGES :: "u32 \<Rightarrow> u32 \<Rightarrow> u32 option" where
  "PAGES sz page_sz =
     (if page_sz = 0 then None else Some ((sz + page_sz - 1) div page_sz))"

definition ALIGN :: "u32 \<Rightarrow> u32 \<Rightarrow> u32 option" where
  "ALIGN sz page_sz =
     (case PAGES sz page_sz of
        None \<Rightarrow> None
      | Some pages \<Rightarrow> Some (pages * page_sz))"

subsection \<open>The header structure and its layout\<close>

datatype ctype = Uint8 | Uint32 | Uint64

fun ctype_size :: "ctype \<Rightarrow> nat" where
  "ctype_size Uint8 = 1"
| "ctype_size Uint32 = 4"
| "ctype_size Uint64 = 8"

text \<open>A member declaration: name, element type, number of elements (1 for a scalar).\<close>

type_synonym member = "string \<times> ctype \<times> nat"

definition vendor_boot_img_hdr_decl :: "member list" where
  "vendor_boot_img_hdr_decl =
    [(''magic'', Uint8, VENDOR_BOOT_MAGIC_SIZE),
     (''header_version'', Uint32, 1),
     (''page_size'', Uint32, 1),
     (''kernel_addr'', Uint32, 1),
     (''ramdisk_addr'', Uint32, 1),
     (''vendor_ramdisk_size'', Uint32, 1),
     (''cmdline'', Uint8, VENDOR_BOOT_ARGS_SIZE),
     (''tags_addr'', Uint32, 1),
     (''name'', Uint8, VENDOR_BOOT_NAME_SIZE),
     (''header_size'', Uint32, 1),
     (''dtb_size'', Uint32, 1),
     (''dtb_addr'', Uint64, 1)]"

text \<open>
  The layout rule of the C compiler: every member is naturally aligned (to the size of
  its element type), members keep their order, and the size of the structure is rounded
  up to its strictest alignment.
\<close>

definition round_up :: "nat \<Rightarrow> nat \<Rightarrow> nat" where
  "round_up n a = (n + a - 1) div a * a"

fun member_size :: "member \<Rightarrow> nat" where
  "member_size (nm, t, k) = ctype_size t * k"

fun member_align :: "member \<Rightarrow> nat" where
  "member_align (nm, t, k) = ctype_size t"

text \<open>\<open>layout off ms\<close>: name, offset and size of each member, the first one placed at or after \<open>off\<close>.\<close>

fun layout :: "nat \<Rightarrow> member list \<Rightarrow> (string \<times> nat \<times> nat) list" where
  "layout off [] = []"
| "layout off (m # ms) =
     (let start = round_up off (member_align m)
      in (fst m, start, member_size m) # layout (start + member_size m) ms)"

fun layout_end :: "nat \<Rightarrow> member list \<Rightarrow> nat" where
  "layout_end off [] = off"
| "layout_end off (m # ms) =
     layout_end (round_up off (member_align m) + member_size m) ms"

definition struct_align :: "member list \<Rightarrow> nat" where
  "struct_align ms = fold max (map member_align ms) 1"

definition sizeof_struct :: "member list \<Rightarrow> nat" where
  "sizeof_struct ms = round_up (layout_end 0 ms) (struct_align ms)"

text \<open>Bytes of padding that the layout inserts between and after the members.\<close>

definition struct_padding :: "member list \<Rightarrow> nat" where
  "struct_padding ms = sizeof_struct ms - sum_list (map member_size ms)"

definition sizeof_hdr :: nat where
  "sizeof_hdr = sizeof_struct vendor_boot_img_hdr_decl"

definition offsetof :: "string \<Rightarrow> nat" where
  "offsetof f =
     (case map_of (layout 0 vendor_boot_img_hdr_decl) f of
        Some (off, sz) \<Rightarrow> off
      | None \<Rightarrow> 0)"

text \<open>The bytes of member \<open>f\<close> in the memory image \<open>raw\<close> of the structure.\<close>

definition member_bytes :: "byte list \<Rightarrow> string \<Rightarrow> byte list" where
  "member_bytes raw f =
     (case map_of (layout 0 vendor_boot_img_hdr_decl) f of
        Some (off, sz) \<Rightarrow> take sz (drop off raw)
      | None \<Rightarrow> [])"

text \<open>Little-endian value of a byte sequence.\<close>

fun le_nat :: "byte list \<Rightarrow> nat" where
  "le_nat [] = 0"
| "le_nat (b # bs) = unat b + 256 * le_nat bs"

definition le32 :: "byte list \<Rightarrow> u32" where
  "le32 bs = word_of_nat (le_nat bs)"

definition le64 :: "byte list \<Rightarrow> u64" where
  "le64 bs = word_of_nat (le_nat bs)"

record vendor_boot_img_hdr =
  magic :: "byte list"
  header_version :: u32
  page_size :: u32
  kernel_addr :: u32
  ramdisk_addr :: u32
  vendor_ramdisk_size :: u32
  cmdline :: "byte list"
  tags_addr :: u32
  name :: "byte list"
  header_size :: u32
  dtb_size :: u32
  dtb_addr :: u64

text \<open>
  \<^verbatim>\<open>file_read(&hdr, sizeof(hdr), f_vbi)\<close> copies \<open>sizeof_hdr\<close> bytes of the file over the
  structure; \<open>hdr_of_bytes raw\<close> is the structure whose memory image is \<open>raw\<close>.
\<close>

definition hdr_of_bytes :: "byte list \<Rightarrow> vendor_boot_img_hdr" where
  "hdr_of_bytes raw =
    \<lparr>magic = member_bytes raw ''magic'',
     header_version = le32 (member_bytes raw ''header_version''),
     page_size = le32 (member_bytes raw ''page_size''),
     kernel_addr = le32 (member_bytes raw ''kernel_addr''),
     ramdisk_addr = le32 (member_bytes raw ''ramdisk_addr''),
     vendor_ramdisk_size = le32 (member_bytes raw ''vendor_ramdisk_size''),
     cmdline = member_bytes raw ''cmdline'',
     tags_addr = le32 (member_bytes raw ''tags_addr''),
     name = member_bytes raw ''name'',
     header_size = le32 (member_bytes raw ''header_size''),
     dtb_size = le32 (member_bytes raw ''dtb_size''),
     dtb_addr = le64 (member_bytes raw ''dtb_addr'')\<rparr>"

subsection \<open>C strings\<close>

text \<open>
  \<open>strncmp s1 s2 n\<close>, where \<open>s1\<close> and \<open>s2\<close> are the bytes from each pointer to the end of
  its object: compares at most \<open>n\<close> characters and stops after a NUL. \<open>None\<close>: the
  comparison would leave one of the objects.
\<close>

fun strncmp :: "byte list \<Rightarrow> byte list \<Rightarrow> nat \<Rightarrow> int option" where
  "strncmp s1 s2 0 = Some 0"
| "strncmp (a # s1) (b # s2) (Suc n) =
     (if a \<noteq> b then Some (uint a - uint b)
      else if a = 0 then Some 0
      else strncmp s1 s2 n)"
| "strncmp [] s2 (Suc n) = None"
| "strncmp s1 [] (Suc n) = None"

text \<open>
  What \<^verbatim>\<open>%s\<close> prints for a pointer into an object, \<open>mem\<close> being the bytes from the pointer
  to the end of the object: the bytes before the first NUL. \<open>None\<close>: there is no NUL, the
  scan leaves the object.
\<close>

definition c_string :: "byte list \<Rightarrow> byte list option" where
  "c_string mem =
     (if 0 \<in> set mem then Some (takeWhile (\<lambda>b. b \<noteq> 0) mem) else None)"

subsection \<open>The world: files, console, environment\<close>

text \<open>One constructor for each message of the source, with its arguments.\<close>

datatype msg =
    Err_invalid_argc \<comment> \<open>\<^verbatim>\<open>Error: Invalid argument count\<close>\<close>
  | Usage string \<comment> \<open>\<^verbatim>\<open>Usage: %s <path to vendor_boot.img>\<close>\<close>
  | Err_cant_open string \<comment> \<open>\<^verbatim>\<open>Error: Can't open %s file; reason: ...\<close>\<close>
  | Err_cant_read \<comment> \<open>\<^verbatim>\<open>Error: Can't read file\<close>\<close>
  | Err_cant_write \<comment> \<open>\<^verbatim>\<open>Error: Can't write file\<close>\<close>
  | Msg_eof \<comment> \<open>\<^verbatim>\<open>End of file reached\<close>\<close>
  | Msg_io_error \<comment> \<open>\<^verbatim>\<open>I/O error occurred\<close>\<close>
  | Err_magic "byte list" \<comment> \<open>\<^verbatim>\<open>Error: Magic doesn't match! Magic = '%s'\<close>\<close>
  | Err_cant_seek string \<comment> \<open>\<^verbatim>\<open>Error: Can't seek %s file; reason: ...\<close>\<close>
  | Msg_reading_header \<comment> \<open>\<^verbatim>\<open>--> Reading header...\<close>\<close>
  | Msg_reading_ramdisk \<comment> \<open>\<^verbatim>\<open>--> Reading ramdisk...\<close>\<close>
  | Msg_reading_dtb \<comment> \<open>\<^verbatim>\<open>--> Reading dtb...\<close>\<close>
  | Msg_cmdline "byte list" \<comment> \<open>\<^verbatim>\<open>cmdline:      '%s'\<close>\<close>
  | Msg_product_name "byte list" \<comment> \<open>\<^verbatim>\<open>product name: '%s'\<close>\<close>

text \<open>
  The trace of a run: console output and every call on a file. \<open>Fread pos n\<close> is a
  request for \<open>n\<close> bytes at stream position \<open>pos\<close>; \<open>Fwrite p n\<close> a request to write \<open>n\<close>
  bytes to the file \<open>p\<close>.
\<close>

datatype event =
    Stdout msg
  | Stderr msg
  | Fopen_r string
  | Fread nat nat
  | Fseek nat
  | Fopen_w string
  | Fwrite string nat
  | Fclose string

record world =
  files :: "string \<rightharpoonup> byte list"
  trace :: "event list"

record env =
  read_fault :: "nat \<Rightarrow> nat \<Rightarrow> bool" \<comment> \<open>the read of \<open>n\<close> bytes at \<open>pos\<close> hits an I/O error\<close>
  seek_ok :: "nat \<Rightarrow> bool" \<comment> \<open>\<^verbatim>\<open>fseek\<close> to this offset succeeds\<close>
  malloc_ok :: "nat \<Rightarrow> bool" \<comment> \<open>\<^verbatim>\<open>malloc\<close> of this size returns a buffer\<close>
  wopen_ok :: "string \<Rightarrow> bool" \<comment> \<open>\<^verbatim>\<open>fopen(path, "w")\<close> succeeds\<close>
  fwrite_len :: "string \<Rightarrow> nat \<Rightarrow> nat" \<comment> \<open>bytes that reach the file when \<open>n\<close> are written\<close>
  fwrite_notices :: "string \<Rightarrow> nat \<Rightarrow> bool" \<comment> \<open>a short write makes \<^verbatim>\<open>fwrite\<close> return 0\<close>

text \<open>An open input stream: its file, its position, and the contents the file had when opened.\<close>

record stream =
  s_path :: string
  s_pos :: nat
  s_data :: "byte list"

text \<open>
  What a call of \<^verbatim>\<open>file_read\<close> comes to: the bytes (return value 0), failure (return value
  -1), or a read from a file that was changed under the stream.
\<close>

datatype read_result = Read_ok "byte list" | Read_failed | Read_stale

datatype fault = Division_by_zero | String_overread | Null_buffer

datatype status = EXIT_SUCCESS | EXIT_FAILURE | Crashed fault | Unspecified

definition emit :: "event \<Rightarrow> world \<Rightarrow> world" where
  "emit ev w = w\<lparr>trace := trace w @ [ev]\<rparr>"

subsection \<open>The functions of main.c\<close>

definition print_usage :: "string \<Rightarrow> world \<Rightarrow> world" where
  "print_usage app w = emit (Stdout (Usage app)) w"

text \<open>\<open>argv\<close> is \<open>app # operands\<close>, so \<open>argc\<close> is its length. \<open>None\<close> is the return value -1.\<close>

definition parse_args :: "string \<Rightarrow> string list \<Rightarrow> world \<Rightarrow> string option \<times> world" where
  "parse_args app operands w =
     (if length (app # operands) \<noteq> 2
      then (None, print_usage app (emit (Stderr Err_invalid_argc) w))
      else (Some (operands ! 0), w))"

text \<open>\<^verbatim>\<open>fopen(path, "r")\<close>: fails when there is no such file.\<close>

definition fopen_r :: "string \<Rightarrow> world \<Rightarrow> stream option \<times> world" where
  "fopen_r path w =
     (case files w path of
        None \<Rightarrow> (None, emit (Fopen_r path) w)
      | Some content \<Rightarrow>
          (Some \<lparr>s_path = path, s_pos = 0, s_data = content\<rparr>, emit (Fopen_r path) w))"

text \<open>\<^verbatim>\<open>fopen(path, "w")\<close>: creates the file or truncates it to length zero.\<close>

definition fopen_w :: "env \<Rightarrow> string \<Rightarrow> world \<Rightarrow> bool \<times> world" where
  "fopen_w e path w =
     (if wopen_ok e path
      then (True, emit (Fopen_w path) (w\<lparr>files := (files w)(path \<mapsto> [])\<rparr>))
      else (False, emit (Fopen_w path) w))"

definition fseek :: "env \<Rightarrow> stream \<Rightarrow> nat \<Rightarrow> world \<Rightarrow> stream option \<times> world" where
  "fseek e f off w =
     (if seek_ok e off
      then (Some (f\<lparr>s_pos := off\<rparr>), emit (Fseek off) w)
      else (None, emit (Fseek off) w))"

definition fclose :: "string \<Rightarrow> world \<Rightarrow> world" where
  "fclose path w = emit (Fclose path) w"

text \<open>
  \<^verbatim>\<open>file_read\<close>: \<^verbatim>\<open>fread(ptr, size, 1, stream)\<close> must return 1. It returns 0 when \<open>size\<close> is 0
  (C11 7.21.8.1: ``if size or nmemb is zero, fread returns zero''), on an I/O error, and
  when fewer than \<open>size\<close> bytes are left in the file. When the file is no longer what it
  was when the stream was opened, the result is \<open>Read_stale\<close>.
\<close>

definition file_read :: "env \<Rightarrow> nat \<Rightarrow> stream \<Rightarrow> world \<Rightarrow> read_result \<times> stream \<times> world" where
  "file_read e sz f w =
     (let avail = drop (s_pos f) (s_data f);
          w1 = emit (Fread (s_pos f) sz) w
      in if sz = 0 then (Read_failed, f, emit (Stderr Err_cant_read) w1)
         else if files w (s_path f) \<noteq> Some (s_data f) then (Read_stale, f, w1)
         else if read_fault e (s_pos f) sz
           then (Read_failed, f, emit (Stderr Msg_io_error) (emit (Stderr Err_cant_read) w1))
         else if length avail < sz
           then (Read_failed, f\<lparr>s_pos := s_pos f + length avail\<rparr>,
                 emit (Stderr Msg_eof) (emit (Stderr Err_cant_read) w1))
         else (Read_ok (take sz avail), f\<lparr>s_pos := s_pos f + sz\<rparr>, w1))"

text \<open>
  \<^verbatim>\<open>file_write\<close>: \<^verbatim>\<open>fwrite(ptr, size, 1, stream)\<close> must return 1. It returns 0 when \<open>size\<close> is 0.
  When fewer than \<open>size\<close> bytes reach the file, the bytes that were written stay, and
  \<^verbatim>\<open>fwrite\<close> returns 0 only if it notices: a buffered write returns 1 and loses the bytes at
  \<^verbatim>\<open>fclose\<close>.
\<close>

definition file_write :: "env \<Rightarrow> byte list \<Rightarrow> string \<Rightarrow> world \<Rightarrow> bool \<times> world" where
  "file_write e buf path w =
     (let sz = length buf;
          w1 = emit (Fwrite path sz) w;
          w2 = w1\<lparr>files := (files w1)(path \<mapsto> take (fwrite_len e path sz) buf)\<rparr>
      in if sz = 0 then (False, emit (Stderr Err_cant_write) w1)
         else if fwrite_len e path sz < sz \<and> fwrite_notices e path sz
           then (False, emit (Stderr Msg_io_error) (emit (Stderr Err_cant_write) w2))
         else (True, w2))"

text \<open>
  The exit labels of \<^verbatim>\<open>main\<close>: \<^verbatim>\<open>err3\<close> closes the output file and falls through to
  \<^verbatim>\<open>err2\<close>, which frees the buffer (no effect on the world) and falls through to \<^verbatim>\<open>err1\<close>,
  which closes the image.
\<close>

definition err1 :: "string \<Rightarrow> world \<Rightarrow> world" where
  "err1 img_path w = fclose img_path w"

definition err2 :: "string \<Rightarrow> world \<Rightarrow> world" where
  "err2 img_path w = err1 img_path w"

definition err3 :: "string \<Rightarrow> string \<Rightarrow> world \<Rightarrow> world" where
  "err3 out_path img_path w = err2 img_path (fclose out_path w)"

text \<open>
  \<^verbatim>\<open>main\<close>, statement by statement, in the blocks that the comments of the source mark;
  each block ends by entering the next one. \<open>raw\<close> is the memory of \<^verbatim>\<open>hdr\<close> after the
  header was read, so \<^verbatim>\<open>hdr.cmdline\<close> as a string pointer is \<open>drop (offsetof ''cmdline'') raw\<close>.
  A buffer that \<^verbatim>\<open>malloc\<close> did not provide is null; reading a segment of nonzero size
  into it is undefined. A read from a file that was changed under the stream ends the run
  of the model with \<open>Unspecified\<close>.
\<close>

text \<open>The two final \<^verbatim>\<open>printf\<close> calls, \<^verbatim>\<open>ret = EXIT_SUCCESS\<close> and the exit through \<^verbatim>\<open>err3\<close>.\<close>

definition main_report :: "byte list \<Rightarrow> string \<Rightarrow> world \<Rightarrow> status \<times> world" where
  "main_report raw img_path w =
    (case c_string (drop (offsetof ''cmdline'') raw) of
       None \<Rightarrow> (Crashed String_overread, w)
     | Some s_cmdline \<Rightarrow>
    (let w = emit (Stdout (Msg_cmdline s_cmdline)) w in
     case c_string (drop (offsetof ''name'') raw) of
       None \<Rightarrow> (Crashed String_overread, w)
     | Some s_name \<Rightarrow>
    (let w = emit (Stdout (Msg_product_name s_name)) w in
     (EXIT_SUCCESS, err3 VENDOR_DTB img_path w))))"

text \<open>The block \<^verbatim>\<open>/* Read dtb */\<close>.\<close>

definition main_read_dtb ::
  "env \<Rightarrow> vendor_boot_img_hdr \<Rightarrow> byte list \<Rightarrow> string \<Rightarrow> stream \<Rightarrow> world \<Rightarrow> status \<times> world" where
  "main_read_dtb e hdr raw img_path f_vbi w0 =
    (let w = emit (Stdout Msg_reading_dtb) w0;
         dtb_sz = unat (dtb_size hdr) in
     if dtb_sz \<noteq> 0 \<and> \<not> malloc_ok e dtb_sz then (Crashed Null_buffer, w)
     else
    (case file_read e dtb_sz f_vbi w of
       (Read_failed, f_vbi, w) \<Rightarrow> (EXIT_FAILURE, err2 img_path w)
     | (Read_stale, f_vbi, w) \<Rightarrow> (Unspecified, w)
     | (Read_ok buf, f_vbi, w) \<Rightarrow>
    (case fopen_w e VENDOR_DTB w of
       (False, w) \<Rightarrow>
         (EXIT_FAILURE, err2 img_path (emit (Stderr (Err_cant_open VENDOR_DTB)) w))
     | (True, w) \<Rightarrow>
    (case file_write e buf VENDOR_DTB w of
       (False, w) \<Rightarrow> (EXIT_FAILURE, err3 VENDOR_DTB img_path w)
     | (True, w) \<Rightarrow> main_report raw img_path w))))"

text \<open>The block \<^verbatim>\<open>/* Skip ramdisk */\<close>.\<close>

definition main_skip_ramdisk ::
  "env \<Rightarrow> vendor_boot_img_hdr \<Rightarrow> byte list \<Rightarrow> string \<Rightarrow> nat \<Rightarrow> stream \<Rightarrow> world
     \<Rightarrow> status \<times> world" where
  "main_skip_ramdisk e hdr raw img_path size_hdr f_vbi w0 =
    (case ALIGN (vendor_ramdisk_size hdr) (page_size hdr) of
       None \<Rightarrow> (Crashed Division_by_zero, w0)
     | Some aligned_rd \<Rightarrow>
    (let size_rd = unat aligned_rd in
     case fseek e f_vbi (size_hdr + size_rd) w0 of
       (None, w) \<Rightarrow> (EXIT_FAILURE, err1 img_path (emit (Stderr (Err_cant_seek img_path)) w))
     | (Some f_vbi, w) \<Rightarrow> main_read_dtb e hdr raw img_path f_vbi w))"

text \<open>The block \<^verbatim>\<open>/* Read ramdisk */\<close>.\<close>

definition main_read_ramdisk ::
  "env \<Rightarrow> vendor_boot_img_hdr \<Rightarrow> byte list \<Rightarrow> string \<Rightarrow> nat \<Rightarrow> stream \<Rightarrow> world
     \<Rightarrow> status \<times> world" where
  "main_read_ramdisk e hdr raw img_path size_hdr f_vbi w0 =
    (let w = emit (Stdout Msg_reading_ramdisk) w0;
         rd_sz = unat (vendor_ramdisk_size hdr) in
     if rd_sz \<noteq> 0 \<and> \<not> malloc_ok e rd_sz then (Crashed Null_buffer, w)
     else
    (case file_read e rd_sz f_vbi w of
       (Read_failed, f_vbi, w) \<Rightarrow> (EXIT_FAILURE, err2 img_path w)
     | (Read_stale, f_vbi, w) \<Rightarrow> (Unspecified, w)
     | (Read_ok buf, f_vbi, w) \<Rightarrow>
    (case fopen_w e VENDOR_RAMDISK w of
       (False, w) \<Rightarrow>
         (EXIT_FAILURE, err2 img_path (emit (Stderr (Err_cant_open VENDOR_RAMDISK)) w))
     | (True, w) \<Rightarrow>
    (case file_write e buf VENDOR_RAMDISK w of
       (False, w) \<Rightarrow> (EXIT_FAILURE, err3 VENDOR_RAMDISK img_path w)
     | (True, w) \<Rightarrow>
         main_skip_ramdisk e hdr raw img_path size_hdr f_vbi (fclose VENDOR_RAMDISK w)))))"

text \<open>The block \<^verbatim>\<open>/* Skip header trailing bytes due to page alignment */\<close>.\<close>

definition main_skip_header ::
  "env \<Rightarrow> vendor_boot_img_hdr \<Rightarrow> byte list \<Rightarrow> string \<Rightarrow> stream \<Rightarrow> world \<Rightarrow> status \<times> world" where
  "main_skip_header e hdr raw img_path f_vbi w0 =
    (case ALIGN (word_of_int VENDOR_HEADER_SIZE) (page_size hdr) of
       None \<Rightarrow> (Crashed Division_by_zero, w0)
     | Some aligned_hdr \<Rightarrow>
    (let size_hdr = unat aligned_hdr in
     case fseek e f_vbi size_hdr w0 of
       (None, w) \<Rightarrow> (EXIT_FAILURE, err1 img_path (emit (Stderr (Err_cant_seek img_path)) w))
     | (Some f_vbi, w) \<Rightarrow> main_read_ramdisk e hdr raw img_path size_hdr f_vbi w))"

text \<open>The beginning of \<^verbatim>\<open>main\<close>: arguments, opening the image, the header and its magic.\<close>

definition main :: "string \<Rightarrow> string list \<Rightarrow> env \<Rightarrow> world \<Rightarrow> status \<times> world" where
  "main app operands e w0 =
    (case parse_args app operands w0 of
       (None, w) \<Rightarrow> (EXIT_SUCCESS, w)
     | (Some img_path, w) \<Rightarrow>
    (case fopen_r img_path w of
       (None, w) \<Rightarrow> (EXIT_FAILURE, emit (Stderr (Err_cant_open img_path)) w)
     | (Some f_vbi, w) \<Rightarrow>
    (case file_read e sizeof_hdr f_vbi (emit (Stdout Msg_reading_header) w) of
       (Read_failed, f_vbi, w) \<Rightarrow> (EXIT_FAILURE, err1 img_path w)
     | (Read_stale, f_vbi, w) \<Rightarrow> (Unspecified, w)
     | (Read_ok raw, f_vbi, w) \<Rightarrow>
    (case strncmp (drop (offsetof ''magic'') raw) (VENDOR_BOOT_MAGIC @ [0])
            VENDOR_BOOT_MAGIC_SIZE of
       None \<Rightarrow> (Crashed String_overread, w)
     | Some diff \<Rightarrow>
     if diff \<noteq> 0 then
       (case c_string (drop (offsetof ''magic'') raw) of
          None \<Rightarrow> (Crashed String_overread, w)
        | Some s \<Rightarrow> (EXIT_FAILURE, err1 img_path (emit (Stderr (Err_magic s)) w)))
     else main_skip_header e (hdr_of_bytes raw) raw img_path f_vbi w))))"

text \<open>The calls that read the image: \<^verbatim>\<open>fread\<close> and \<^verbatim>\<open>fseek\<close> on it.\<close>

fun is_input_io :: "event \<Rightarrow> bool" where
  "is_input_io (Fread pos n) = True"
| "is_input_io (Fseek off) = True"
| "is_input_io ev = False"

fun is_output_io :: "event \<Rightarrow> bool" where
  "is_output_io (Fopen_w path) = True"
| "is_output_io (Fwrite path n) = True"
| "is_output_io ev = False"

definition input_io :: "world \<Rightarrow> event list" where
  "input_io w = filter is_input_io (trace w)"

text \<open>
  The reads and seeks of a run that nothing stops, with the offsets as \<^verbatim>\<open>main\<close> computes
  them. With a zero page size the run ends after the header.
\<close>

definition main_input_io :: "vendor_boot_img_hdr \<Rightarrow> event list" where
  "main_input_io h =
     (case ALIGN (word_of_int VENDOR_HEADER_SIZE) (page_size h) of
        None \<Rightarrow> [Fread 0 sizeof_hdr]
      | Some a \<Rightarrow>
         (case ALIGN (vendor_ramdisk_size h) (page_size h) of
            None \<Rightarrow> [Fread 0 sizeof_hdr]
          | Some b \<Rightarrow>
              [Fread 0 sizeof_hdr,
               Fseek (unat a), Fread (unat a) (unat (vendor_ramdisk_size h)),
               Fseek (unat a + unat b), Fread (unat a + unat b) (unat (dtb_size h))]))"

subsection \<open>The format as the specification states it\<close>

text \<open>The page-aligned size of the specification: \<open>ceil(size / page_size) * page_size\<close>.\<close>

definition spec_align :: "nat \<Rightarrow> nat \<Rightarrow> nat" where
  "spec_align sz page = nat \<lceil>real sz / real page\<rceil> * page"

text \<open>
  The reads of a complete run as the specification lists them: the header of 2112 bytes
  at offset 0, the ramdisk at the aligned size of the header (of the constant 2112, not of
  the \<open>header_size\<close> field), the dtb after the aligned size of the ramdisk.
\<close>

definition spec_input_io :: "vendor_boot_img_hdr \<Rightarrow> event list" where
  "spec_input_io h =
     (let page = unat (page_size h);
          header_aligned_size = spec_align 2112 page;
          ramdisk_aligned_size = spec_align (unat (vendor_ramdisk_size h)) page
      in [Fread 0 2112,
          Fseek header_aligned_size,
          Fread header_aligned_size (unat (vendor_ramdisk_size h)),
          Fseek (header_aligned_size + ramdisk_aligned_size),
          Fread (header_aligned_size + ramdisk_aligned_size) (unat (dtb_size h))])"

text \<open>An environment in which no call fails for a reason of its own.\<close>

definition no_faults :: "env \<Rightarrow> bool" where
  "no_faults e \<longleftrightarrow>
     (\<forall>pos n. \<not> read_fault e pos n) \<and> (\<forall>off. seek_ok e off) \<and> (\<forall>n. malloc_ok e n) \<and>
     (\<forall>path. wopen_ok e path) \<and> (\<forall>path n. n \<le> fwrite_len e path n)"

subsection \<open>Building images\<close>

text \<open>The \<open>k\<close> little-endian bytes of a number.\<close>

fun le_bytes :: "nat \<Rightarrow> nat \<Rightarrow> byte list" where
  "le_bytes 0 v = []"
| "le_bytes (Suc k) v = word_of_nat (v mod 256) # le_bytes k (v div 256)"

text \<open>
  The bytes of a header with the given magic, page size, ramdisk size, dtb size, command
  line, tags address and name; version and load addresses are 0, \<open>header_size\<close> is 2112.
\<close>

definition mk_header ::
  "byte list \<Rightarrow> nat \<Rightarrow> nat \<Rightarrow> nat \<Rightarrow> byte list \<Rightarrow> nat \<Rightarrow> byte list \<Rightarrow> byte list" where
  "mk_header mg ps rs ds cl ta nm =
     mg @ le_bytes 4 0 @ le_bytes 4 ps @ le_bytes 4 0 @ le_bytes 4 0 @ le_bytes 4 rs @
     cl @ le_bytes 4 ta @ nm @ le_bytes 4 2112 @ le_bytes 4 ds @ le_bytes 8 0"

definition ok_env :: env where
  "ok_env =
     \<lparr>read_fault = (\<lambda>pos n. False), seek_ok = (\<lambda>off. True), malloc_ok = (\<lambda>n. True),
      wopen_ok = (\<lambda>path. True), fwrite_len = (\<lambda>path n. n),
      fwrite_notices = (\<lambda>path n. True)\<rparr>"

definition image_path :: string where
  "image_path = ''vendor_boot.img''"

text \<open>A world whose only file is the image, with an empty trace.\<close>

definition image_world :: "byte list \<Rightarrow> world" where
  "image_world img = \<lparr>files = [image_path \<mapsto> img], trace = []\<rparr>"

subsection \<open>Example images\<close>

definition example_cmdline :: "byte list" where
  "example_cmdline = map of_char ''quiet'' @ replicate 2043 0"

definition example_name :: "byte list" where
  "example_name = map of_char ''dev'' @ replicate 13 0"

definition example_ramdisk :: "byte list" where
  "example_ramdisk = [1, 2, 3, 4, 5, 6, 7, 8, 9, 10]"

definition example_dtb :: "byte list" where
  "example_dtb = [208, 13, 254, 237, 0]"

text \<open>Page size 4096, a ramdisk of 10 bytes and a dtb of 5 bytes.\<close>

definition example_hdr :: "byte list" where
  "example_hdr = mk_header VENDOR_BOOT_MAGIC 4096 10 5 example_cmdline 0 example_name"

definition example_image :: "byte list" where
  "example_image =
     example_hdr @ replicate 1984 0 @ example_ramdisk @ replicate 4086 0 @ example_dtb"

text \<open>The same image cut off inside the ramdisk, and cut off inside the dtb.\<close>

definition short_ramdisk_image :: "byte list" where
  "short_ramdisk_image = example_hdr @ replicate 1984 0 @ take 4 example_ramdisk"

definition short_dtb_image :: "byte list" where
  "short_dtb_image =
     example_hdr @ replicate 1984 0 @ example_ramdisk @ replicate 4086 0 @ take 2 example_dtb"

text \<open>The example image with the magic of a boot image instead.\<close>

definition bad_magic_image :: "byte list" where
  "bad_magic_image =
     mk_header (map of_char ''ANDROID!'') 4096 10 5 example_cmdline 0 example_name @
     replicate 1984 0 @ example_ramdisk @ replicate 4086 0 @ example_dtb"

text \<open>Page size 0.\<close>

definition zero_page_image :: "byte list" where
  "zero_page_image =
     mk_header VENDOR_BOOT_MAGIC 0 10 5 example_cmdline 0 example_name @
     example_ramdisk @ example_dtb"

text \<open>Declared ramdisk size 0; declared dtb size 0.\<close>

definition empty_ramdisk_image :: "byte list" where
  "empty_ramdisk_image =
     mk_header VENDOR_BOOT_MAGIC 4096 0 5 example_cmdline 0 example_name @
     replicate 1984 0 @ example_dtb"

definition empty_dtb_image :: "byte list" where
  "empty_dtb_image =
     mk_header VENDOR_BOOT_MAGIC 4096 10 0 example_cmdline 0 example_name @
     replicate 1984 0 @ example_ramdisk @ replicate 4086 0"

text \<open>
  A command line of 2048 letters \<^verbatim>\<open>A\<close> without a NUL, followed by the tags address
  \<^verbatim>\<open>0x42424242\<close>.
\<close>

definition long_cmdline_image :: "byte list" where
  "long_cmdline_image =
     mk_header VENDOR_BOOT_MAGIC 4096 10 5 (replicate 2048 65) 1111638594 example_name @
     replicate 1984 0 @ example_ramdisk @ replicate 4086 0 @ example_dtb"

text \<open>
  A header alone, declaring page size \<open>2^32 - 1\<close>, a ramdisk of 10 bytes and a dtb of 5
  bytes.
\<close>

definition wrap_page_image :: "byte list" where
  "wrap_page_image =
     mk_header VENDOR_BOOT_MAGIC 4294967295 10 5 example_cmdline 0 example_name"

text \<open>
  Page size \<open>2^31\<close>, a ramdisk of \<open>2^31 + 1\<close> bytes \<^verbatim>\<open>0xAA\<close> (two pages), a dtb of one byte
  \<^verbatim>\<open>0xBB\<close>.
\<close>

definition big_page_hdr :: "byte list" where
  "big_page_hdr =
     mk_header VENDOR_BOOT_MAGIC 2147483648 2147483649 1 example_cmdline 0 example_name"

definition big_page_ramdisk :: "byte list" where
  "big_page_ramdisk = replicate 2147483649 170"

definition big_page_image :: "byte list" where
  "big_page_image =
     big_page_hdr @ replicate 2147481536 0 @ big_page_ramdisk @ replicate 2147483647 0 @ [187]"

section \<open>Properties\<close>

subsection \<open>Layout of the header\<close>

lemma hdr_layout:
  "layout 0 vendor_boot_img_hdr_decl =
    [(''magic'', 0, 8), (''header_version'', 8, 4), (''page_size'', 12, 4),
     (''kernel_addr'', 16, 4), (''ramdisk_addr'', 20, 4), (''vendor_ramdisk_size'', 24, 4),
     (''cmdline'', 28, 2048), (''tags_addr'', 2076, 4), (''name'', 2080, 16),
     (''header_size'', 2096, 4), (''dtb_size'', 2100, 4), (''dtb_addr'', 2104, 8)]"
  by (simp add: vendor_boot_img_hdr_decl_def round_up_def Let_def
      VENDOR_BOOT_MAGIC_SIZE_def VENDOR_BOOT_ARGS_SIZE_def VENDOR_BOOT_NAME_SIZE_def)

lemma hdr_layout_end: "layout_end 0 vendor_boot_img_hdr_decl = 2112"
  by (simp add: vendor_boot_img_hdr_decl_def round_up_def
      VENDOR_BOOT_MAGIC_SIZE_def VENDOR_BOOT_ARGS_SIZE_def VENDOR_BOOT_NAME_SIZE_def)

lemma hdr_struct_align: "struct_align vendor_boot_img_hdr_decl = 8"
  by (simp add: vendor_boot_img_hdr_decl_def struct_align_def)

lemma sizeof_hdr_eq: "sizeof_hdr = 2112"
  by (simp add: sizeof_hdr_def sizeof_struct_def hdr_layout_end hdr_struct_align round_up_def)

lemma hdr_padding: "struct_padding vendor_boot_img_hdr_decl = 0"
  by (simp add: struct_padding_def sizeof_struct_def hdr_layout_end hdr_struct_align round_up_def)
     (simp add: vendor_boot_img_hdr_decl_def
      VENDOR_BOOT_MAGIC_SIZE_def VENDOR_BOOT_ARGS_SIZE_def VENDOR_BOOT_NAME_SIZE_def)

lemma offsetof_simps:
  "offsetof ''magic'' = 0" "offsetof ''cmdline'' = 28" "offsetof ''name'' = 2080"
  by (simp_all add: offsetof_def hdr_layout)

lemma hdr_of_bytes_eq:
  "hdr_of_bytes raw =
    \<lparr>magic = take 8 raw,
     header_version = le32 (take 4 (drop 8 raw)),
     page_size = le32 (take 4 (drop 12 raw)),
     kernel_addr = le32 (take 4 (drop 16 raw)),
     ramdisk_addr = le32 (take 4 (drop 20 raw)),
     vendor_ramdisk_size = le32 (take 4 (drop 24 raw)),
     cmdline = take 2048 (drop 28 raw),
     tags_addr = le32 (take 4 (drop 2076 raw)),
     name = take 16 (drop 2080 raw),
     header_size = le32 (take 4 (drop 2096 raw)),
     dtb_size = le32 (take 4 (drop 2100 raw)),
     dtb_addr = le64 (take 8 (drop 2104 raw))\<rparr>"
  by (simp add: hdr_of_bytes_def member_bytes_def hdr_layout)

lemma strncmp_literal:
  "0 \<notin> set lit \<Longrightarrow> length lit \<le> length s \<Longrightarrow>
   \<exists>d. strncmp s (lit @ t) (length lit) = Some d \<and> (d = 0 \<longleftrightarrow> take (length lit) s = lit)"
proof (induction lit arbitrary: s)
  case Nil
  then show ?case by simp
next
  case (Cons c lit)
  then obtain a s' where s: "s = a # s'" by (cases s) auto
  show ?case
  proof (cases "a = c")
    case True
    with Cons s show ?thesis by auto
  next
    case False
    then have "uint a - uint c \<noteq> 0" by (simp add: word_uint_eq_iff)
    with False s show ?thesis by simp
  qed
qed

lemma magic_no_nul: "0 \<notin> set VENDOR_BOOT_MAGIC" "length VENDOR_BOOT_MAGIC = 8"
  by (simp_all add: VENDOR_BOOT_MAGIC_def)

lemma strncmp_magic:
  assumes "8 \<le> length raw"
  shows "\<exists>d. strncmp raw (VENDOR_BOOT_MAGIC @ [0]) VENDOR_BOOT_MAGIC_SIZE = Some d
           \<and> (d = 0 \<longleftrightarrow> take 8 raw = VENDOR_BOOT_MAGIC)"
  using strncmp_literal [of VENDOR_BOOT_MAGIC raw "[0]"] assms
  by (simp add: magic_no_nul VENDOR_BOOT_MAGIC_SIZE_def)

subsection \<open>The read and seek calls of a run\<close>

lemma emit_simps: "files (emit ev w) = files w" "trace (emit ev w) = trace w @ [ev]"
  by (simp_all add: emit_def)

lemma input_io_emit [simp]:
  "input_io (emit ev w) = input_io w @ (if is_input_io ev then [ev] else [])"
  by (simp add: input_io_def emit_def)

lemma input_io_files_update [simp]: "input_io (w\<lparr>files := fs\<rparr>) = input_io w"
  by (simp add: input_io_def)

lemma input_io_fclose [simp]: "input_io (fclose p w) = input_io w"
  by (simp add: fclose_def)

lemma input_io_err [simp]:
  "input_io (err1 p w) = input_io w" "input_io (err2 p w) = input_io w"
  "input_io (err3 q p w) = input_io w"
  by (simp_all add: err1_def err2_def err3_def)

lemma input_io_file_read [simp]:
  "input_io (snd (snd (file_read e n f w))) = input_io w @ [Fread (s_pos f) n]"
  by (simp add: file_read_def Let_def)

lemma input_io_fopen_w [simp]: "input_io (snd (fopen_w e p w)) = input_io w"
  by (simp add: fopen_w_def)

lemma input_io_file_write [simp]: "input_io (snd (file_write e buf p w)) = input_io w"
  by (simp add: file_write_def Let_def)

lemma input_io_fseek [simp]: "input_io (snd (fseek e f off w)) = input_io w @ [Fseek off]"
  by (simp add: fseek_def)

lemma s_pos_fseek: "fst (fseek e f off w) = Some f' \<Longrightarrow> s_pos f' = off"
  by (auto simp: fseek_def split: if_splits)

lemma report_io:
  "input_io w = ys \<Longrightarrow> input_io (snd (main_report raw p w)) = ys"
  by (auto simp: main_report_def Let_def split: option.split)

lemma read_dtb_io:
  "input_io w @ [Fread (s_pos f) (unat (dtb_size h))] = ys \<Longrightarrow>
   prefix (input_io (snd (main_read_dtb e h raw p f w))) ys"
  by (auto simp: main_read_dtb_def Let_def split_beta intro!: report_io
      split: option.split bool.split read_result.split)

lemma skip_ramdisk_io:
  "input_io w @
     (case ALIGN (vendor_ramdisk_size h) (page_size h) of
        None \<Rightarrow> []
      | Some b \<Rightarrow> [Fseek (sh + unat b), Fread (sh + unat b) (unat (dtb_size h))]) = ys \<Longrightarrow>
   prefix (input_io (snd (main_skip_ramdisk e h raw p sh f w))) ys"
  by (auto simp: main_skip_ramdisk_def Let_def split_beta s_pos_fseek intro!: read_dtb_io
      split: option.split)

lemma read_ramdisk_io:
  "input_io w @ Fread (s_pos f) (unat (vendor_ramdisk_size h)) #
     (case ALIGN (vendor_ramdisk_size h) (page_size h) of
        None \<Rightarrow> []
      | Some b \<Rightarrow> [Fseek (sh + unat b), Fread (sh + unat b) (unat (dtb_size h))]) = ys \<Longrightarrow>
   prefix (input_io (snd (main_read_ramdisk e h raw p sh f w))) ys"
  by (auto simp: main_read_ramdisk_def Let_def split_beta intro!: skip_ramdisk_io
      split: option.split bool.split read_result.split)

lemma skip_header_io:
  "input_io w @ tl (main_input_io h) = ys \<Longrightarrow>
   prefix (input_io (snd (main_skip_header e h raw p f w))) ys"
  by (auto simp: main_skip_header_def main_input_io_def Let_def split_beta s_pos_fseek
      ALIGN_def PAGES_def
      intro!: read_ramdisk_io split: option.split if_splits)

lemma report_lo: "prefix xs (input_io w) \<Longrightarrow> prefix xs (input_io (snd (main_report raw p w)))"
  by (simp add: report_io)

lemma read_dtb_lo:
  "prefix xs (input_io w) \<Longrightarrow> prefix xs (input_io (snd (main_read_dtb e h raw p f w)))"
  by (auto simp: main_read_dtb_def Let_def split_beta intro!: report_lo
      split: option.split bool.split read_result.split)

lemma skip_ramdisk_lo:
  "prefix xs (input_io w) \<Longrightarrow> prefix xs (input_io (snd (main_skip_ramdisk e h raw p sh f w)))"
  by (auto simp: main_skip_ramdisk_def Let_def split_beta intro!: read_dtb_lo
      split: option.split)

lemma read_ramdisk_lo:
  "prefix xs (input_io w) \<Longrightarrow> prefix xs (input_io (snd (main_read_ramdisk e h raw p sh f w)))"
  by (auto simp: main_read_ramdisk_def Let_def split_beta intro!: skip_ramdisk_lo
      split: option.split bool.split read_result.split)

lemma skip_header_lo:
  "prefix xs (input_io w) \<Longrightarrow> prefix xs (input_io (snd (main_skip_header e h raw p f w)))"
  by (auto simp: main_skip_header_def Let_def split_beta intro!: read_ramdisk_lo
      split: option.split)

lemma read_dtb_all:
  "fst (main_read_dtb e h raw p f w) = EXIT_SUCCESS \<Longrightarrow>
   input_io w @ [Fread (s_pos f) (unat (dtb_size h))] = ys \<Longrightarrow>
   input_io (snd (main_read_dtb e h raw p f w)) = ys"
  by (auto simp: main_read_dtb_def Let_def split_beta intro!: report_io
      split: option.splits bool.splits if_splits read_result.splits)

lemma skip_ramdisk_all:
  "fst (main_skip_ramdisk e h raw p sh f w) = EXIT_SUCCESS \<Longrightarrow>
   input_io w @
     (case ALIGN (vendor_ramdisk_size h) (page_size h) of
        None \<Rightarrow> []
      | Some b \<Rightarrow> [Fseek (sh + unat b), Fread (sh + unat b) (unat (dtb_size h))]) = ys \<Longrightarrow>
   input_io (snd (main_skip_ramdisk e h raw p sh f w)) = ys"
  by (auto simp: main_skip_ramdisk_def Let_def split_beta s_pos_fseek intro!: read_dtb_all
      split: option.splits)

lemma read_ramdisk_all:
  "fst (main_read_ramdisk e h raw p sh f w) = EXIT_SUCCESS \<Longrightarrow>
   input_io w @ Fread (s_pos f) (unat (vendor_ramdisk_size h)) #
     (case ALIGN (vendor_ramdisk_size h) (page_size h) of
        None \<Rightarrow> []
      | Some b \<Rightarrow> [Fseek (sh + unat b), Fread (sh + unat b) (unat (dtb_size h))]) = ys \<Longrightarrow>
   input_io (snd (main_read_ramdisk e h raw p sh f w)) = ys"
  by (auto simp: main_read_ramdisk_def Let_def split_beta intro!: skip_ramdisk_all
      split: option.splits bool.splits if_splits read_result.splits)

lemma skip_header_all:
  "fst (main_skip_header e h raw p f w) = EXIT_SUCCESS \<Longrightarrow>
   input_io w @ tl (main_input_io h) = ys \<Longrightarrow>
   input_io (snd (main_skip_header e h raw p f w)) = ys"
  by (auto simp: main_skip_header_def main_input_io_def Let_def split_beta s_pos_fseek
      ALIGN_def PAGES_def
      intro!: read_ramdisk_all split: option.splits if_splits)

lemma file_read_Some:
  "fst (file_read e n f w) = Read_ok buf \<Longrightarrow> buf = take n (drop (s_pos f) (s_data f))"
  by (auto simp: file_read_def Let_def split: if_splits)

lemma hd_main_input_io:
  "Fread 0 sizeof_hdr # tl (main_input_io h) = main_input_io h"
  "prefix [Fread 0 sizeof_hdr] (main_input_io h)"
  by (simp_all add: main_input_io_def split: option.split)

lemma main_io_hi:
  assumes "files w p = Some img"
  shows "prefix (input_io (snd (main app [p] e w)))
           (input_io w @ main_input_io (hdr_of_bytes (take sizeof_hdr img)))"
  using assms
  by (auto simp: main_def parse_args_def fopen_r_def Let_def split_beta emit_simps
      hd_main_input_io
      dest!: file_read_Some intro!: skip_header_io split: option.split read_result.split)

lemma main_io_lo:
  "prefix (input_io w) (input_io (snd (main app ops e w)))"
  by (auto simp: main_def parse_args_def print_usage_def fopen_r_def Let_def split_beta
      intro!: skip_header_lo split: option.split read_result.split)

lemma main_io_all:
  assumes "files w p = Some img" "fst (main app [p] e w) = EXIT_SUCCESS"
  shows "input_io (snd (main app [p] e w)) =
           input_io w @ main_input_io (hdr_of_bytes (take sizeof_hdr img))"
  using assms
  by (auto simp: main_def parse_args_def fopen_r_def Let_def split_beta emit_simps
      hd_main_input_io
      dest!: file_read_Some intro!: skip_header_all
      split: option.splits if_splits read_result.splits)

subsection \<open>The blocks of main when nothing fails\<close>

lemma file_read_ok:
  assumes "files w (s_path f) = Some c" "s_data f = c" "n \<noteq> 0"
    "\<not> read_fault e (s_pos f) n" "s_pos f + n \<le> length c"
  shows "file_read e n f w =
           (Read_ok (take n (drop (s_pos f) c)), f\<lparr>s_pos := s_pos f + n\<rparr>,
            w\<lparr>trace := trace w @ [Fread (s_pos f) n]\<rparr>)"
  using assms by (simp add: file_read_def emit_def Let_def)

lemma file_read_eof:
  assumes "files w (s_path f) = Some c" "s_data f = c" "n \<noteq> 0"
    "\<not> read_fault e (s_pos f) n" "length c - s_pos f < n"
  shows "file_read e n f w =
           (Read_failed, f\<lparr>s_pos := s_pos f + (length c - s_pos f)\<rparr>,
            w\<lparr>trace := trace w @ [Fread (s_pos f) n, Stderr Err_cant_read, Stderr Msg_eof]\<rparr>)"
  using assms by (simp add: file_read_def emit_def Let_def)

lemma file_read_zero:
  "file_read e 0 f w =
     (Read_failed, f, w\<lparr>trace := trace w @ [Fread (s_pos f) 0, Stderr Err_cant_read]\<rparr>)"
  by (simp add: file_read_def emit_def Let_def)

lemma file_write_ok:
  assumes "buf \<noteq> []" "length buf \<le> fwrite_len e p (length buf)"
  shows "file_write e buf p w =
           (True, w\<lparr>files := (files w)(p \<mapsto> buf),
                    trace := trace w @ [Fwrite p (length buf)]\<rparr>)"
  using assms by (simp add: file_write_def emit_def Let_def)

lemma fopen_w_ok:
  assumes "wopen_ok e p"
  shows "fopen_w e p w =
           (True, w\<lparr>files := (files w)(p \<mapsto> []), trace := trace w @ [Fopen_w p]\<rparr>)"
  using assms by (simp add: fopen_w_def emit_def)

lemma fseek_ok:
  assumes "seek_ok e off"
  shows "fseek e f off w = (Some (f\<lparr>s_pos := off\<rparr>), w\<lparr>trace := trace w @ [Fseek off]\<rparr>)"
  using assms by (simp add: fseek_def emit_def)

lemma main_header_ok:
  assumes "files w p = Some img" "sizeof_hdr \<le> length img" "\<not> read_fault e 0 sizeof_hdr"
    "take 8 img = VENDOR_BOOT_MAGIC"
  shows "main app [p] e w =
           main_skip_header e (hdr_of_bytes (take sizeof_hdr img)) (take sizeof_hdr img) p
             \<lparr>s_path = p, s_pos = sizeof_hdr, s_data = img\<rparr>
             (w\<lparr>trace := trace w @ [Fopen_r p, Stdout Msg_reading_header, Fread 0 sizeof_hdr]\<rparr>)"
proof -
  let ?raw = "take sizeof_hdr img"
  have len: "8 \<le> length ?raw" using assms(2) by (simp add: sizeof_hdr_eq)
  have "take 8 ?raw = VENDOR_BOOT_MAGIC" using assms(4) by (simp add: sizeof_hdr_eq)
  with strncmp_magic [OF len]
  have cmp: "strncmp ?raw (VENDOR_BOOT_MAGIC @ [0]) VENDOR_BOOT_MAGIC_SIZE = Some 0"
    by auto
  have sz: "sizeof_hdr \<noteq> 0" by (simp add: sizeof_hdr_eq)
  show ?thesis
    using assms(1-3) sz
    by (simp add: main_def parse_args_def fopen_r_def file_read_ok emit_def offsetof_simps cmp)
qed

lemma skip_header_ok:
  assumes "ALIGN (word_of_int VENDOR_HEADER_SIZE) (page_size h) = Some a" "seek_ok e (unat a)"
  shows "main_skip_header e h raw p f w =
           main_read_ramdisk e h raw p (unat a) (f\<lparr>s_pos := unat a\<rparr>)
             (w\<lparr>trace := trace w @ [Fseek (unat a)]\<rparr>)"
  using assms by (simp add: main_skip_header_def fseek_ok Let_def)

lemma read_ramdisk_ok:
  assumes "files w (s_path f) = Some img" "s_data f = img"
    "n = unat (vendor_ramdisk_size h)" "n \<noteq> 0"
    "malloc_ok e n" "\<not> read_fault e (s_pos f) n" "s_pos f + n \<le> length img"
    "wopen_ok e VENDOR_RAMDISK" "n \<le> fwrite_len e VENDOR_RAMDISK n"
  shows "main_read_ramdisk e h raw p sh f w =
           main_skip_ramdisk e h raw p sh (f\<lparr>s_pos := s_pos f + n\<rparr>)
             (w\<lparr>files := (files w)(VENDOR_RAMDISK \<mapsto> take n (drop (s_pos f) img)),
                trace := trace w @ [Stdout Msg_reading_ramdisk, Fread (s_pos f) n,
                  Fopen_w VENDOR_RAMDISK, Fwrite VENDOR_RAMDISK n, Fclose VENDOR_RAMDISK]\<rparr>)"
proof -
  let ?buf = "take n (drop (s_pos f) img)"
  have len: "length ?buf = n" using assms(7) by simp
  then have ne: "?buf \<noteq> []" using assms(4) by auto
  have rd: "file_read e n f (w\<lparr>trace := trace w @ [Stdout Msg_reading_ramdisk]\<rparr>) =
      (Read_ok ?buf, f\<lparr>s_pos := s_pos f + n\<rparr>,
       w\<lparr>trace := trace w @ [Stdout Msg_reading_ramdisk, Fread (s_pos f) n]\<rparr>)"
    using assms(1,2,4,6,7) by (simp add: file_read_ok)
  have wr: "file_write e ?buf VENDOR_RAMDISK w' =
      (True, w'\<lparr>files := (files w')(VENDOR_RAMDISK \<mapsto> ?buf),
                trace := trace w' @ [Fwrite VENDOR_RAMDISK n]\<rparr>)" for w'
    using file_write_ok [OF ne, of e VENDOR_RAMDISK w'] assms(9) len by simp
  show ?thesis
    using assms(5,8)
    by (simp add: main_read_ramdisk_def Let_def assms(3) [symmetric] rd fopen_w_ok wr
        fclose_def emit_def)
qed

lemma skip_ramdisk_ok:
  assumes "ALIGN (vendor_ramdisk_size h) (page_size h) = Some b" "seek_ok e (sh + unat b)"
  shows "main_skip_ramdisk e h raw p sh f w =
           main_read_dtb e h raw p (f\<lparr>s_pos := sh + unat b\<rparr>)
             (w\<lparr>trace := trace w @ [Fseek (sh + unat b)]\<rparr>)"
  using assms by (simp add: main_skip_ramdisk_def fseek_ok Let_def)

lemma read_dtb_ok:
  assumes "files w (s_path f) = Some img" "s_data f = img"
    "n = unat (dtb_size h)" "n \<noteq> 0"
    "malloc_ok e n" "\<not> read_fault e (s_pos f) n" "s_pos f + n \<le> length img"
    "wopen_ok e VENDOR_DTB" "n \<le> fwrite_len e VENDOR_DTB n"
  shows "main_read_dtb e h raw p f w =
           main_report raw p
             (w\<lparr>files := (files w)(VENDOR_DTB \<mapsto> take n (drop (s_pos f) img)),
                trace := trace w @ [Stdout Msg_reading_dtb, Fread (s_pos f) n,
                  Fopen_w VENDOR_DTB, Fwrite VENDOR_DTB n]\<rparr>)"
proof -
  let ?buf = "take n (drop (s_pos f) img)"
  have len: "length ?buf = n" using assms(7) by simp
  then have ne: "?buf \<noteq> []" using assms(4) by auto
  have rd: "file_read e n f (w\<lparr>trace := trace w @ [Stdout Msg_reading_dtb]\<rparr>) =
      (Read_ok ?buf, f\<lparr>s_pos := s_pos f + n\<rparr>,
       w\<lparr>trace := trace w @ [Stdout Msg_reading_dtb, Fread (s_pos f) n]\<rparr>)"
    using assms(1,2,4,6,7) by (simp add: file_read_ok)
  have wr: "file_write e ?buf VENDOR_DTB w' =
      (True, w'\<lparr>files := (files w')(VENDOR_DTB \<mapsto> ?buf),
                trace := trace w' @ [Fwrite VENDOR_DTB n]\<rparr>)" for w'
    using file_write_ok [OF ne, of e VENDOR_DTB w'] assms(9) len by simp
  show ?thesis
    using assms(5,8)
    by (simp add: main_read_dtb_def Let_def assms(3) [symmetric] rd fopen_w_ok wr emit_def)
qed

lemma report_ok:
  assumes "c_string (drop 28 raw) = Some s1" "c_string (drop 2080 raw) = Some s2"
  shows "main_report raw p w =
           (EXIT_SUCCESS,
            w\<lparr>trace := trace w @ [Stdout (Msg_cmdline s1), Stdout (Msg_product_name s2),
                 Fclose VENDOR_DTB, Fclose p]\<rparr>)"
  using assms
  by (simp add: main_report_def offsetof_simps err3_def err2_def err1_def fclose_def emit_def Let_def)

subsection \<open>Images built with mk header\<close>

lemma length_le_bytes [simp]: "length (le_bytes k v) = k"
  by (induction k arbitrary: v) simp_all

lemma le_nat_le_bytes: "le_nat (le_bytes k v) = v mod 256 ^ k"
proof (induction k arbitrary: v)
  case 0
  then show ?case by simp
next
  case (Suc k)
  have "unat (word_of_nat (v mod 256) :: byte) = v mod 256"
    by (simp add: unat_of_nat)
  then show ?case
    by (simp add: Suc mod_mult2_eq)
qed

lemma le32_le_bytes [simp]: "le32 (le_bytes 4 v) = word_of_nat v"
proof -
  have "(word_of_nat (v mod 256 ^ 4) :: u32) = word_of_nat v"
    by (simp add: word_of_nat_eq_iff take_bit_eq_mod)
  then show ?thesis by (simp add: le32_def le_nat_le_bytes)
qed

lemma le64_le_bytes [simp]: "le64 (le_bytes 8 v) = word_of_nat v"
proof -
  have "(word_of_nat (v mod 256 ^ 8) :: u64) = word_of_nat v"
    by (simp add: word_of_nat_eq_iff take_bit_eq_mod)
  then show ?thesis by (simp add: le64_def le_nat_le_bytes)
qed

lemma length_mk_header:
  "length mg = 8 \<Longrightarrow> length cl = 2048 \<Longrightarrow> length nm = 16 \<Longrightarrow>
   length (mk_header mg ps rs ds cl ta nm) = 2112"
  by (simp add: mk_header_def)

lemma hdr_of_mk_header:
  assumes "length mg = 8" "length cl = 2048" "length nm = 16"
  shows "hdr_of_bytes (mk_header mg ps rs ds cl ta nm) =
    \<lparr>magic = mg, header_version = 0, page_size = word_of_nat ps, kernel_addr = 0,
     ramdisk_addr = 0, vendor_ramdisk_size = word_of_nat rs, cmdline = cl,
     tags_addr = word_of_nat ta, name = nm, header_size = 2112,
     dtb_size = word_of_nat ds, dtb_addr = 0\<rparr>"
  using assms by (simp add: hdr_of_bytes_eq mk_header_def)

lemma cmdline_mem_mk_header:
  assumes "length mg = 8" "length cl = 2048"
  shows "drop 28 (mk_header mg ps rs ds cl ta nm) =
           cl @ le_bytes 4 ta @ nm @ le_bytes 4 2112 @ le_bytes 4 ds @ le_bytes 8 0"
  using assms by (simp add: mk_header_def)

lemma name_mem_mk_header:
  assumes "length mg = 8" "length cl = 2048"
  shows "drop 2080 (mk_header mg ps rs ds cl ta nm) =
           nm @ le_bytes 4 2112 @ le_bytes 4 ds @ le_bytes 8 0"
  using assms by (simp add: mk_header_def)

lemma take_magic_mk_header:
  assumes "length mg = 8"
  shows "take 8 (mk_header mg ps rs ds cl ta nm @ rest) = mg"
  using assms by (simp add: mk_header_def)

subsection \<open>Alignment\<close>

lemma ceil_nat:
  assumes "0 < p"
  shows "nat \<lceil>real s / real p\<rceil> = (s + p - 1) div p"
proof -
  define q where "q = (s + p - 1) div p"
  have lo: "q * p \<le> s + p - 1"
    unfolding q_def by simp
  have hi: "s + p - 1 < q * p + p"
    unfolding q_def using assms
    by (metis div_mult_mod_eq mod_less_divisor add_less_cancel_left)
  have up: "s \<le> q * p" using hi assms by linarith
  have dn: "q * p < s + p" using lo assms by linarith
  have "\<lceil>real s / real p\<rceil> = int q"
  proof (rule ceiling_unique)
    show "real_of_int (int q) - 1 < real s / real p"
    proof -
      have "real (q * p) < real (s + p)" using dn by (simp only: of_nat_less_iff)
      then have "(real q - 1) * real p < real s" by (simp add: algebra_simps)
      then show ?thesis using assms by (simp add: pos_less_divide_eq)
    qed
    show "real s / real p \<le> real_of_int (int q)"
    proof -
      have "real s \<le> real (q * p)" using up by (simp only: of_nat_le_iff)
      then show ?thesis using assms by (simp add: pos_divide_le_eq)
    qed
  qed
  then show ?thesis by (simp add: q_def)
qed

lemma unat_sum1:
  assumes "P \<noteq> 0" "unat S + unat P \<le> 2 ^ 32"
  shows "unat (S + P - 1 :: u32) = unat S + unat P - 1"
proof -
  have p1: "unat (P - 1) = unat P - 1"
    using assms(1) by (simp add: unat_minus_one)
  have pos: "0 < unat P" using assms(1) by (simp add: unat_gt_0)
  have "unat S + unat (P - 1) < 2 ^ LENGTH(32)"
    using assms(2) pos p1 by simp
  then have "unat (S + (P - 1)) = unat S + unat (P - 1)"
    by (simp only: unat_add_lem)
  then show ?thesis using p1 pos by (simp add: add_diff_eq)
qed

lemma ALIGN_unat:
  assumes "P \<noteq> 0" "unat S + unat P \<le> 2 ^ 32"
  shows "\<exists>a. ALIGN S P = Some a \<and> unat a = (unat S + unat P - 1) div unat P * unat P"
proof -
  let ?q = "(S + P - 1) div P"
  have q: "unat ?q = (unat S + unat P - 1) div unat P"
    by (simp add: unat_div unat_sum1 [OF assms])
  have pos: "0 < unat P" using assms(1) by (simp add: unat_gt_0)
  have "unat ?q * unat P \<le> unat S + unat P - 1"
    unfolding q by simp
  then have "unat ?q * unat P < 2 ^ LENGTH(32)"
    using assms(2) pos by simp
  then have "unat (?q * P) = unat ?q * unat P"
    by (simp only: unat_mult_lem)
  then show ?thesis using assms(1) q by (simp add: ALIGN_def PAGES_def)
qed

lemma round_up_bounds:
  assumes "0 < (p::nat)"
  shows "s \<le> (s + p - 1) div p * p" "(s + p - 1) div p * p - s < p"
    "p dvd (s + p - 1) div p * p"
proof -
  define q where "q = (s + p - 1) div p"
  have lo: "q * p \<le> s + p - 1"
    unfolding q_def by simp
  have hi: "s + p - 1 < q * p + p"
    unfolding q_def using assms
    by (metis div_mult_mod_eq mod_less_divisor add_less_cancel_left)
  show "s \<le> (s + p - 1) div p * p" using hi assms unfolding q_def by linarith
  show "(s + p - 1) div p * p - s < p" using lo assms unfolding q_def by linarith
  show "p dvd (s + p - 1) div p * p" by simp
qed

text \<open>
  Claim C3, amended. For every page size \<open>P > 0\<close> and every size \<open>S\<close> such that \<open>S + P\<close> does
  not exceed \<open>2^32\<close> (so that \<open>S + P - 1\<close> fits in 32 bits), the macro returns the size
  rounded up to whole pages: \<open>ALIGN(S, P) = ceil(S / P) * P\<close>, it is at least \<open>S\<close>, and it
  exceeds \<open>S\<close> by less than \<open>P\<close>.
\<close>

theorem ALIGN_ceiling:
  assumes "P \<noteq> 0" and "unat S + unat P \<le> 2 ^ 32"
  shows "\<exists>a. ALIGN S P = Some a \<and>
           unat a = nat \<lceil>real (unat S) / real (unat P)\<rceil> * unat P \<and>
           unat S \<le> unat a \<and> unat a - unat S < unat P"
proof -
  have pos: "0 < unat P" using assms(1) by (simp add: unat_gt_0)
  from ALIGN_unat [OF assms] obtain a where
    a: "ALIGN S P = Some a" "unat a = (unat S + unat P - 1) div unat P * unat P"
    by blast
  have c: "nat \<lceil>real (unat S) / real (unat P)\<rceil> = (unat S + unat P - 1) div unat P"
    by (rule ceil_nat [OF pos])
  have 1: "unat a = nat \<lceil>real (unat S) / real (unat P)\<rceil> * unat P"
    unfolding c by (rule a(2))
  have 2: "unat S \<le> unat a"
    unfolding a(2) by (rule round_up_bounds(1) [OF pos])
  have 3: "unat a - unat S < unat P"
    unfolding a(2) by (rule round_up_bounds(2) [OF pos])
  from a(1) 1 2 3 show ?thesis by blast
qed

text \<open>The theorem at \<open>S = 10\<close>, \<open>P = 4096\<close>.\<close>

theorem ALIGN_ceiling_witness:
  "\<exists>a. ALIGN 10 4096 = Some a \<and>
     unat a = nat \<lceil>real (unat (10 :: u32)) / real (unat (4096 :: u32))\<rceil> * unat (4096 :: u32) \<and>
     unat (10 :: u32) \<le> unat a \<and> unat a - unat (10 :: u32) < unat (4096 :: u32)"
  using ALIGN_ceiling [of 4096 10] by simp

text \<open>
  Claim C3 as stated fails where the 32-bit sum wraps: for \<open>S = 2^32 - 1\<close> and \<open>P = 2\<close> the
  macro computes \<open>S + P - 1 = 0\<close> and returns 0, which is less than \<open>S\<close>.
\<close>

theorem ALIGN_wraps:
  "ALIGN 4294967295 2 = Some 0 \<and> \<not> unat (4294967295 :: u32) \<le> unat (0 :: u32)"
  by (simp add: ALIGN_def PAGES_def)

subsection \<open>Arguments, layout and segment offsets\<close>

text \<open>
  Claim C9. When the number of operands is not one, \<^verbatim>\<open>main\<close> prints the error line and the
  usage line, returns \<^verbatim>\<open>EXIT_SUCCESS\<close>, and does nothing else: the files are unchanged and
  the trace gains no call on a file.
\<close>

theorem usage_exit:
  assumes "length operands \<noteq> 1"
  shows "main app operands e w =
           (EXIT_SUCCESS, w\<lparr>trace := trace w @ [Stderr Err_invalid_argc, Stdout (Usage app)]\<rparr>)"
  using assms by (simp add: main_def parse_args_def print_usage_def emit_def)

text \<open>
  The theorem with no operand and with two operands.
\<close>

theorem usage_exit_witness:
  "main ''unpack_vendor_boot'' [] ok_env (image_world example_image) =
     (EXIT_SUCCESS,
      (image_world example_image)\<lparr>trace := trace (image_world example_image) @
         [Stderr Err_invalid_argc, Stdout (Usage ''unpack_vendor_boot'')]\<rparr>)
   \<and> main ''unpack_vendor_boot'' [image_path, ''extra''] ok_env (image_world example_image) =
     (EXIT_SUCCESS,
      (image_world example_image)\<lparr>trace := trace (image_world example_image) @
         [Stderr Err_invalid_argc, Stdout (Usage ''unpack_vendor_boot'')]\<rparr>)"
  using usage_exit [of "[]" "''unpack_vendor_boot''" ok_env "image_world example_image"]
        usage_exit [of "[image_path, ''extra'']" "''unpack_vendor_boot''" ok_env
          "image_world example_image"]
  by simp

lemma main_first_read:
  assumes "files w p = Some img"
  shows "prefix (input_io w @ [Fread 0 sizeof_hdr]) (input_io (snd (main app [p] e w)))"
  using assms
  by (auto simp: main_def parse_args_def fopen_r_def Let_def split_beta emit_simps
      intro!: skip_header_lo split: option.split read_result.split)

text \<open>
  Claim C10. Laid out by the rule of the compiler, the header structure has 2112 bytes,
  the value of \<^verbatim>\<open>VENDOR_HEADER_SIZE\<close>, with no padding between or after its members; the
  members lie at the offsets of the on-disk format. Every run on an existing image starts
  its reads with these 2112 bytes at offset 0, and the size that the alignment of the header
  uses is this same number.
\<close>

theorem hdr_layout_packed:
  "sizeof_hdr = 2112 \<and> int sizeof_hdr = VENDOR_HEADER_SIZE \<and>
   unat (word_of_int VENDOR_HEADER_SIZE :: u32) = sizeof_hdr \<and>
   struct_padding vendor_boot_img_hdr_decl = 0 \<and>
   layout 0 vendor_boot_img_hdr_decl =
     [(''magic'', 0, 8), (''header_version'', 8, 4), (''page_size'', 12, 4),
      (''kernel_addr'', 16, 4), (''ramdisk_addr'', 20, 4), (''vendor_ramdisk_size'', 24, 4),
      (''cmdline'', 28, 2048), (''tags_addr'', 2076, 4), (''name'', 2080, 16),
      (''header_size'', 2096, 4), (''dtb_size'', 2100, 4), (''dtb_addr'', 2104, 8)] \<and>
   (files w p = Some img \<longrightarrow>
      prefix (input_io w @ [Fread 0 (nat VENDOR_HEADER_SIZE)])
        (input_io (snd (main app [p] e w))))"
  using main_first_read [of w p img app e]
  by (simp add: sizeof_hdr_eq hdr_padding hdr_layout VENDOR_HEADER_SIZE_def)

text \<open>The last part of the theorem on the example image.\<close>

theorem hdr_layout_packed_witness:
  "prefix [Fread 0 2112]
     (input_io (snd (main ''unpack_vendor_boot'' [image_path] ok_env
        (image_world example_image))))"
  using hdr_layout_packed [of "image_world example_image" image_path example_image
      "''unpack_vendor_boot''" ok_env]
  by (simp add: image_world_def input_io_def VENDOR_HEADER_SIZE_def sizeof_hdr_eq)

lemma header_size_bytes_unused:
  assumes "length bs = 4" "2100 \<le> length img"
  shows "hdr_of_bytes (take sizeof_hdr (take 2096 img @ bs @ drop 2100 img)) =
           (hdr_of_bytes (take sizeof_hdr img))\<lparr>header_size := le32 bs\<rparr>"
  using assms
  by (simp add: hdr_of_bytes_eq sizeof_hdr_eq min_def take_drop)

subsection \<open>A complete run\<close>

lemma no_faultsD:
  assumes "no_faults e"
  shows "\<not> read_fault e pos n" "seek_ok e off" "malloc_ok e n" "wopen_ok e path"
    "n \<le> fwrite_len e path n"
  using assms by (simp_all add: no_faults_def)

lemma no_faults_ok_env: "no_faults ok_env"
  by (simp add: no_faults_def ok_env_def)

lemma VENDOR_names_distinct: "VENDOR_RAMDISK \<noteq> VENDOR_DTB" "VENDOR_DTB \<noteq> VENDOR_RAMDISK"
  by (simp_all add: VENDOR_RAMDISK_def VENDOR_DTB_def)

lemma main_reaches_ramdisk:
  assumes f: "files w p = Some img" and len: "sizeof_hdr \<le> length img"
    and mg: "take 8 img = VENDOR_BOOT_MAGIC" and nf: "no_faults e"
    and h: "h = hdr_of_bytes (take sizeof_hdr img)"
    and a: "ALIGN (word_of_int VENDOR_HEADER_SIZE) (page_size h) = Some a"
  shows "main app [p] e w =
           main_read_ramdisk e h (take sizeof_hdr img) p (unat a) \<lparr>s_path = p, s_pos = unat a, s_data = img\<rparr>
             (w\<lparr>trace := trace w @
                [Fopen_r p, Stdout Msg_reading_header, Fread 0 sizeof_hdr, Fseek (unat a)]\<rparr>)"
proof -
  have "main app [p] e w =
      main_skip_header e h (take sizeof_hdr img) p \<lparr>s_path = p, s_pos = sizeof_hdr, s_data = img\<rparr>
        (w\<lparr>trace := trace w @ [Fopen_r p, Stdout Msg_reading_header, Fread 0 sizeof_hdr]\<rparr>)"
    unfolding h by (rule main_header_ok [OF f len no_faultsD(1) [OF nf] mg])
  also have "\<dots> =
      main_read_ramdisk e h (take sizeof_hdr img) p (unat a) \<lparr>s_path = p, s_pos = unat a, s_data = img\<rparr>
        (w\<lparr>trace := trace w @
           [Fopen_r p, Stdout Msg_reading_header, Fread 0 sizeof_hdr, Fseek (unat a)]\<rparr>)"
    by (simp add: skip_header_ok [OF a no_faultsD(2) [OF nf]])
  finally show ?thesis .
qed

lemma main_reaches_dtb:
  assumes f: "files w p = Some img" and len: "sizeof_hdr \<le> length img"
    and mg: "take 8 img = VENDOR_BOOT_MAGIC" and nf: "no_faults e"
    and h: "h = hdr_of_bytes (take sizeof_hdr img)"
    and a: "ALIGN (word_of_int VENDOR_HEADER_SIZE) (page_size h) = Some a"
    and b: "ALIGN (vendor_ramdisk_size h) (page_size h) = Some b"
    and n: "n = unat (vendor_ramdisk_size h)" "n \<noteq> 0" "unat a + n \<le> length img"
  shows "main app [p] e w =
           main_read_dtb e h (take sizeof_hdr img) p \<lparr>s_path = p, s_pos = unat a + unat b, s_data = img\<rparr>
             (w\<lparr>files := (files w)(VENDOR_RAMDISK \<mapsto> take n (drop (unat a) img)),
                trace := trace w @
                [Fopen_r p, Stdout Msg_reading_header, Fread 0 sizeof_hdr, Fseek (unat a),
                 Stdout Msg_reading_ramdisk, Fread (unat a) n, Fopen_w VENDOR_RAMDISK,
                 Fwrite VENDOR_RAMDISK n, Fclose VENDOR_RAMDISK, Fseek (unat a + unat b)]\<rparr>)"
proof -
  let ?f1 = "\<lparr>s_path = p, s_pos = unat a, s_data = img\<rparr>"
  let ?w1 = "w\<lparr>trace := trace w @
                [Fopen_r p, Stdout Msg_reading_header, Fread 0 sizeof_hdr, Fseek (unat a)]\<rparr>"
  have f1: "files ?w1 (s_path ?f1) = Some img" using f by simp
  have "main app [p] e w = main_read_ramdisk e h (take sizeof_hdr img) p (unat a) ?f1 ?w1"
    by (rule main_reaches_ramdisk [OF f len mg nf h a])
  also have "\<dots> =
      main_skip_ramdisk e h (take sizeof_hdr img) p (unat a) (?f1\<lparr>s_pos := s_pos ?f1 + n\<rparr>)
        (?w1\<lparr>files := (files ?w1)(VENDOR_RAMDISK \<mapsto> take n (drop (s_pos ?f1) img)),
             trace := trace ?w1 @ [Stdout Msg_reading_ramdisk, Fread (s_pos ?f1) n,
               Fopen_w VENDOR_RAMDISK, Fwrite VENDOR_RAMDISK n, Fclose VENDOR_RAMDISK]\<rparr>)"
    by (rule read_ramdisk_ok [OF f1 _ n(1,2) no_faultsD(3) [OF nf] no_faultsD(1) [OF nf] _
          no_faultsD(4) [OF nf] no_faultsD(5) [OF nf]]) (use n(3) in simp_all)
  also have "\<dots> =
      main_read_dtb e h (take sizeof_hdr img) p \<lparr>s_path = p, s_pos = unat a + unat b, s_data = img\<rparr>
        (w\<lparr>files := (files w)(VENDOR_RAMDISK \<mapsto> take n (drop (unat a) img)),
           trace := trace w @
           [Fopen_r p, Stdout Msg_reading_header, Fread 0 sizeof_hdr, Fseek (unat a),
            Stdout Msg_reading_ramdisk, Fread (unat a) n, Fopen_w VENDOR_RAMDISK,
            Fwrite VENDOR_RAMDISK n, Fclose VENDOR_RAMDISK, Fseek (unat a + unat b)]\<rparr>)"
    by (simp add: skip_ramdisk_ok [OF b no_faultsD(2) [OF nf]])
  finally show ?thesis .
qed

lemma main_extracts:
  assumes f: "files w p = Some img" and len: "sizeof_hdr \<le> length img"
    and mg: "take 8 img = VENDOR_BOOT_MAGIC" and nf: "no_faults e"
    and h: "h = hdr_of_bytes (take sizeof_hdr img)"
    and a: "ALIGN (word_of_int VENDOR_HEADER_SIZE) (page_size h) = Some a"
    and b: "ALIGN (vendor_ramdisk_size h) (page_size h) = Some b"
    and n: "n = unat (vendor_ramdisk_size h)" "n \<noteq> 0" "unat a + n \<le> length img"
    and m: "m = unat (dtb_size h)" "m \<noteq> 0" "unat a + unat b + m \<le> length img"
    and p: "p \<noteq> VENDOR_RAMDISK"
    and s1: "c_string (drop 28 (take sizeof_hdr img)) = Some s1"
    and s2: "c_string (drop 2080 (take sizeof_hdr img)) = Some s2"
  shows "main app [p] e w =
           (EXIT_SUCCESS,
            w\<lparr>files := (files w)(VENDOR_RAMDISK \<mapsto> take n (drop (unat a) img),
                                  VENDOR_DTB \<mapsto> take m (drop (unat a + unat b) img)),
              trace := trace w @
                [Fopen_r p, Stdout Msg_reading_header, Fread 0 sizeof_hdr, Fseek (unat a),
                 Stdout Msg_reading_ramdisk, Fread (unat a) n, Fopen_w VENDOR_RAMDISK,
                 Fwrite VENDOR_RAMDISK n, Fclose VENDOR_RAMDISK, Fseek (unat a + unat b),
                 Stdout Msg_reading_dtb, Fread (unat a + unat b) m, Fopen_w VENDOR_DTB,
                 Fwrite VENDOR_DTB m, Stdout (Msg_cmdline s1), Stdout (Msg_product_name s2),
                 Fclose VENDOR_DTB, Fclose p]\<rparr>)"
proof -
  let ?f2 = "\<lparr>s_path = p, s_pos = unat a + unat b, s_data = img\<rparr>"
  let ?w2 = "w\<lparr>files := (files w)(VENDOR_RAMDISK \<mapsto> take n (drop (unat a) img)),
                trace := trace w @
                [Fopen_r p, Stdout Msg_reading_header, Fread 0 sizeof_hdr, Fseek (unat a),
                 Stdout Msg_reading_ramdisk, Fread (unat a) n, Fopen_w VENDOR_RAMDISK,
                 Fwrite VENDOR_RAMDISK n, Fclose VENDOR_RAMDISK, Fseek (unat a + unat b)]\<rparr>"
  have f2: "files ?w2 (s_path ?f2) = Some img" using f p by simp
  have "main app [p] e w = main_read_dtb e h (take sizeof_hdr img) p ?f2 ?w2"
    by (rule main_reaches_dtb [OF f len mg nf h a b n])
  also have "\<dots> =
      main_report (take sizeof_hdr img) p
        (?w2\<lparr>files := (files ?w2)(VENDOR_DTB \<mapsto> take m (drop (s_pos ?f2) img)),
             trace := trace ?w2 @ [Stdout Msg_reading_dtb, Fread (s_pos ?f2) m,
               Fopen_w VENDOR_DTB, Fwrite VENDOR_DTB m]\<rparr>)"
    by (rule read_dtb_ok [OF f2 _ m(1,2) no_faultsD(3) [OF nf] no_faultsD(1) [OF nf] _
          no_faultsD(4) [OF nf] no_faultsD(5) [OF nf]]) (use m(3) in simp_all)
  also have "\<dots> =
      (EXIT_SUCCESS,
       w\<lparr>files := (files w)(VENDOR_RAMDISK \<mapsto> take n (drop (unat a) img),
                             VENDOR_DTB \<mapsto> take m (drop (unat a + unat b) img)),
         trace := trace w @
           [Fopen_r p, Stdout Msg_reading_header, Fread 0 sizeof_hdr, Fseek (unat a),
            Stdout Msg_reading_ramdisk, Fread (unat a) n, Fopen_w VENDOR_RAMDISK,
            Fwrite VENDOR_RAMDISK n, Fclose VENDOR_RAMDISK, Fseek (unat a + unat b),
            Stdout Msg_reading_dtb, Fread (unat a + unat b) m, Fopen_w VENDOR_DTB,
            Fwrite VENDOR_DTB m, Stdout (Msg_cmdline s1), Stdout (Msg_product_name s2),
            Fclose VENDOR_DTB, Fclose p]\<rparr>)"
    by (simp add: report_ok [OF s1 s2])
  finally show ?thesis .
qed

lemma aligned_unique:
  fixes p :: nat
  assumes "0 < p" "p dvd x" "p dvd y" "s \<le> x" "x < s + p" "s \<le> y" "y < s + p"
  shows "x = y"
proof -
  from assms(2,3) obtain i j where ij: "x = p * i" "y = p * j" by (auto simp: dvd_def)
  have "i = j"
  proof (rule ccontr)
    assume "i \<noteq> j"
    then consider "i < j" | "j < i" by linarith
    then show False
    proof cases
      case 1
      then have "p * (i + 1) \<le> p * j" using assms(1) by (simp only: mult_le_mono2 Suc_leI Suc_eq_plus1 [symmetric])
      then show False using ij assms(4,7) by (simp add: algebra_simps)
    next
      case 2
      then have "p * (j + 1) \<le> p * i" using assms(1) by (simp only: mult_le_mono2 Suc_leI Suc_eq_plus1 [symmetric])
      then show False using ij assms(5,6) by (simp add: algebra_simps)
    qed
  qed
  then show ?thesis using ij by simp
qed

lemma ALIGN_padded:
  assumes P: "P \<noteq> 0" and nowrap: "unat S + unat P \<le> 2 ^ 32"
    and pad: "unat P dvd unat S + k" "k < unat P"
  shows "\<exists>a. ALIGN S P = Some a \<and> unat a = unat S + k"
proof -
  have pos: "0 < unat P" using P by (simp add: unat_gt_0)
  from ALIGN_unat [OF P nowrap] obtain a where
    a: "ALIGN S P = Some a" "unat a = (unat S + unat P - 1) div unat P * unat P"
    by blast
  have "unat a = unat S + k"
  proof (rule aligned_unique [OF pos])
    show "unat P dvd unat a" unfolding a(2) by simp
    show "unat P dvd unat S + k" by (rule pad(1))
    show "unat S \<le> unat a" unfolding a(2) by (rule round_up_bounds(1) [OF pos])
    show "unat a < unat S + unat P"
      using round_up_bounds(1,2) [OF pos, of "unat S"] unfolding a(2) by linarith
    show "unat S \<le> unat S + k" by simp
    show "unat S + k < unat S + unat P" using pad(2) by simp
  qed
  with a(1) show ?thesis by blast
qed

lemma unat_VENDOR_HEADER_SIZE: "unat (word_of_int VENDOR_HEADER_SIZE :: u32) = sizeof_hdr"
  by (simp add: VENDOR_HEADER_SIZE_def sizeof_hdr_eq)

lemma c_string_Some: "0 \<in> set mem \<Longrightarrow> c_string mem = Some (takeWhile (\<lambda>b. b \<noteq> 0) mem)"
  by (simp add: c_string_def)

text \<open>
  Claim C1, amended. Let the image be a header block \<open>hb\<close> of 2112 bytes with the right
  magic, a nonzero page size and the declared sizes \<open>length R\<close> and \<open>length D\<close>, followed by
  padding to the next page boundary, the ramdisk \<open>R\<close>, padding to the next page boundary,
  and the dtb \<open>D\<close>. Let \<open>R\<close> and \<open>D\<close> be nonempty, let a NUL byte occur in the header at or
  after the start of \<open>name\<close>, and let the 32-bit alignment arithmetic not wrap:
  \<open>2112 + page_size \<le> 2^32\<close> and \<open>vendor_ramdisk_size + page_size \<le> 2^32\<close>. Then, in an
  environment without faults and for an image that is not itself named
  \<^verbatim>\<open>vendor_ramdisk.img\<close>, the run succeeds and the two output files hold exactly \<open>R\<close> and
  \<open>D\<close>.
\<close>

theorem extract_roundtrip:
  assumes img: "files w p = Some (hb @ pad1 @ R @ pad2 @ D)"
    and hb: "length hb = sizeof_hdr"
    and h: "h = hdr_of_bytes hb"
    and mg: "magic h = VENDOR_BOOT_MAGIC"
    and ps: "page_size h \<noteq> 0"
    and rs: "unat (vendor_ramdisk_size h) = length R"
    and ds: "unat (dtb_size h) = length D"
    and pad1: "unat (page_size h) dvd sizeof_hdr + length pad1" "length pad1 < unat (page_size h)"
    and pad2: "unat (page_size h) dvd length R + length pad2" "length pad2 < unat (page_size h)"
    and ne: "R \<noteq> []" "D \<noteq> []"
    and nul: "0 \<in> set (drop (offsetof ''name'') hb)"
    and nowrap: "sizeof_hdr + unat (page_size h) \<le> 2 ^ 32"
      "length R + unat (page_size h) \<le> 2 ^ 32"
    and p: "p \<noteq> VENDOR_RAMDISK"
    and nf: "no_faults e"
  shows "fst (main app [p] e w) = EXIT_SUCCESS \<and>
         files (snd (main app [p] e w)) VENDOR_RAMDISK = Some R \<and>
         files (snd (main app [p] e w)) VENDOR_DTB = Some D"
proof -
  define img where "img = hb @ pad1 @ R @ pad2 @ D"
  have fl: "files w p = Some img" using img by (simp add: img_def)
  have raw: "take sizeof_hdr img = hb" using hb by (simp add: img_def)
  have h': "h = hdr_of_bytes (take sizeof_hdr img)" using h raw by simp
  have len: "sizeof_hdr \<le> length img" using hb by (simp add: img_def)
  have mg': "take 8 img = VENDOR_BOOT_MAGIC"
    using mg hb unfolding h by (simp add: hdr_of_bytes_eq sizeof_hdr_eq img_def)
  from ALIGN_padded [OF ps, of "word_of_int VENDOR_HEADER_SIZE" "length pad1"] nowrap(1) pad1
  obtain a where a: "ALIGN (word_of_int VENDOR_HEADER_SIZE) (page_size h) = Some a"
    "unat a = sizeof_hdr + length pad1"
    by (auto simp: unat_VENDOR_HEADER_SIZE)
  from ALIGN_padded [OF ps, of "vendor_ramdisk_size h" "length pad2"] nowrap(2) pad2
  obtain b where b: "ALIGN (vendor_ramdisk_size h) (page_size h) = Some b"
    "unat b = length R + length pad2"
    by (auto simp: rs)
  have n: "length R = unat (vendor_ramdisk_size h)" "length R \<noteq> 0"
    "unat a + length R \<le> length img"
    using rs ne(1) a(2) hb by (simp_all add: img_def)
  have m: "length D = unat (dtb_size h)" "length D \<noteq> 0"
    "unat a + unat b + length D \<le> length img"
    using ds ne(2) a(2) b(2) hb by (simp_all add: img_def)
  have nul2: "0 \<in> set (drop 2080 (take sizeof_hdr img))"
    using nul by (simp only: raw offsetof_simps)
  have "set (drop 2080 hb) \<subseteq> set (drop 28 hb)"
    by (rule set_drop_subset_set_drop) simp
  then have nul1: "0 \<in> set (drop 28 (take sizeof_hdr img))"
    using nul by (auto simp only: raw offsetof_simps)
  have rd: "take (length R) (drop (unat a) img) = R"
    using a(2) hb by (simp add: img_def)
  have dt: "take (length D) (drop (unat a + unat b) img) = D"
    using a(2) b(2) hb by (simp add: img_def)
  show ?thesis
    using main_extracts [OF fl len mg' nf h' a(1) b(1) n m p
        c_string_Some [OF nul1] c_string_Some [OF nul2], of app]
    by (simp add: rd dt VENDOR_names_distinct)
qed

lemma example_lengths:
  "length example_cmdline = 2048" "length example_name = 16"
  "length example_ramdisk = 10" "length example_dtb = 5"
  by (simp_all add: example_cmdline_def example_name_def example_ramdisk_def example_dtb_def)

lemma example_hdr_facts:
  "length example_hdr = sizeof_hdr"
  "magic (hdr_of_bytes example_hdr) = VENDOR_BOOT_MAGIC"
  "page_size (hdr_of_bytes example_hdr) = 4096"
  "vendor_ramdisk_size (hdr_of_bytes example_hdr) = 10"
  "dtb_size (hdr_of_bytes example_hdr) = 5"
  "0 \<in> set (drop (offsetof ''name'') example_hdr)"
  by (simp_all add: example_hdr_def hdr_of_mk_header length_mk_header name_mem_mk_header
      magic_no_nul example_lengths sizeof_hdr_eq offsetof_simps)
     (simp add: example_name_def)

lemma image_world_simps:
  "files (image_world img) image_path = Some img" "trace (image_world img) = []"
  "image_path \<noteq> VENDOR_RAMDISK"
  by (simp_all add: image_world_def image_path_def VENDOR_RAMDISK_def)

text \<open>
  The theorem on the example image: page size 4096, a ramdisk of 10 bytes, a dtb of 5 bytes.
\<close>

theorem extract_roundtrip_witness:
  "fst (main ''unpack_vendor_boot'' [image_path] ok_env (image_world example_image))
     = EXIT_SUCCESS \<and>
   files (snd (main ''unpack_vendor_boot'' [image_path] ok_env (image_world example_image)))
     VENDOR_RAMDISK = Some example_ramdisk \<and>
   files (snd (main ''unpack_vendor_boot'' [image_path] ok_env (image_world example_image)))
     VENDOR_DTB = Some example_dtb"
  using extract_roundtrip [of "image_world example_image" image_path example_hdr
      "replicate 1984 0" example_ramdisk "replicate 4086 0" example_dtb
      "hdr_of_bytes example_hdr" ok_env "''unpack_vendor_boot''"]
  by (simp add: image_world_simps example_image_def example_hdr_facts example_lengths
      sizeof_hdr_eq no_faults_ok_env length_0_conv [symmetric] del: length_0_conv)

lemma big_page_hdr_facts:
  "length big_page_hdr = 2112"
  "magic (hdr_of_bytes big_page_hdr) = VENDOR_BOOT_MAGIC"
  "page_size (hdr_of_bytes big_page_hdr) = 2147483648"
  "vendor_ramdisk_size (hdr_of_bytes big_page_hdr) = 2147483649"
  "dtb_size (hdr_of_bytes big_page_hdr) = 1"
  "take 8 big_page_hdr = VENDOR_BOOT_MAGIC"
  "0 \<in> set (drop 28 big_page_hdr)" "0 \<in> set (drop 2080 big_page_hdr)"
  by (simp_all add: big_page_hdr_def hdr_of_mk_header length_mk_header name_mem_mk_header
      cmdline_mem_mk_header magic_no_nul example_lengths take_magic_mk_header [where rest = "[]", simplified])
     (simp_all add: example_name_def)

lemma big_page_image_facts:
  "length big_page_image = 6442450945"
  "take sizeof_hdr big_page_image = big_page_hdr"
  "take 8 big_page_image = VENDOR_BOOT_MAGIC"
  "take 2147483649 (drop 2147483648 big_page_image) = big_page_ramdisk"
  "take (Suc 0) (drop 2147483648 big_page_image) = [170]"
  by (simp_all add: big_page_image_def big_page_ramdisk_def big_page_hdr_facts sizeof_hdr_eq)

lemma big_page_ALIGN:
  "ALIGN (word_of_int VENDOR_HEADER_SIZE) 2147483648 = Some 2147483648"
  "ALIGN 2147483649 2147483648 = Some 0"
  by (simp_all add: ALIGN_def PAGES_def VENDOR_HEADER_SIZE_def)

text \<open>
  Claim C1 as stated fails on a well-formed image whose alignment wraps. With page size
  \<open>2^31\<close> and a ramdisk of \<open>2^31 + 1\<close> bytes, \<open>ALIGN(vendor_ramdisk_size, page_size)\<close> is
  computed as 0 instead of \<open>2^32\<close>; the dtb is then read at the start of the ramdisk, and
  the run ends with success and a dtb file holding \<^verbatim>\<open>0xAA\<close>, not the dtb \<^verbatim>\<open>0xBB\<close> of the
  image.
\<close>

theorem big_page_dtb_mismatch:
  "magic (hdr_of_bytes big_page_hdr) = VENDOR_BOOT_MAGIC \<and>
   page_size (hdr_of_bytes big_page_hdr) = 2147483648 \<and>
   unat (vendor_ramdisk_size (hdr_of_bytes big_page_hdr)) = length big_page_ramdisk \<and>
   unat (dtb_size (hdr_of_bytes big_page_hdr)) = length [187 :: byte] \<and>
   fst (main ''unpack_vendor_boot'' [image_path] ok_env (image_world big_page_image))
     = EXIT_SUCCESS \<and>
   files (snd (main ''unpack_vendor_boot'' [image_path] ok_env (image_world big_page_image)))
     VENDOR_DTB = Some [170] \<and>
   [170] \<noteq> [187 :: byte]"
proof -
  have run: "main ''unpack_vendor_boot'' [image_path] ok_env (image_world big_page_image) =
      (EXIT_SUCCESS,
       (image_world big_page_image)
         \<lparr>files := (files (image_world big_page_image))
            (VENDOR_RAMDISK \<mapsto> take 2147483649 (drop (unat (2147483648 :: u32)) big_page_image),
             VENDOR_DTB \<mapsto> take 1 (drop (unat (2147483648 :: u32) + unat (0 :: u32)) big_page_image)),
          trace := trace (image_world big_page_image) @
            [Fopen_r image_path, Stdout Msg_reading_header, Fread 0 sizeof_hdr,
             Fseek (unat (2147483648 :: u32)), Stdout Msg_reading_ramdisk,
             Fread (unat (2147483648 :: u32)) 2147483649, Fopen_w VENDOR_RAMDISK,
             Fwrite VENDOR_RAMDISK 2147483649, Fclose VENDOR_RAMDISK,
             Fseek (unat (2147483648 :: u32) + unat (0 :: u32)),
             Stdout Msg_reading_dtb, Fread (unat (2147483648 :: u32) + unat (0 :: u32)) 1,
             Fopen_w VENDOR_DTB, Fwrite VENDOR_DTB 1,
             Stdout (Msg_cmdline (takeWhile (\<lambda>b. b \<noteq> 0) (drop 28 (take sizeof_hdr big_page_image)))),
             Stdout (Msg_product_name (takeWhile (\<lambda>b. b \<noteq> 0) (drop 2080 (take sizeof_hdr big_page_image)))),
             Fclose VENDOR_DTB, Fclose image_path]\<rparr>)"
  proof (rule main_extracts [where h = "hdr_of_bytes big_page_hdr"])
    show "files (image_world big_page_image) image_path = Some big_page_image"
      by (rule image_world_simps)
    show "sizeof_hdr \<le> length big_page_image"
      by (simp add: big_page_image_facts sizeof_hdr_eq)
    show "take 8 big_page_image = VENDOR_BOOT_MAGIC" by (rule big_page_image_facts)
    show "no_faults ok_env" by (rule no_faults_ok_env)
    show "hdr_of_bytes big_page_hdr = hdr_of_bytes (take sizeof_hdr big_page_image)"
      by (simp add: big_page_image_facts)
    show "ALIGN (word_of_int VENDOR_HEADER_SIZE) (page_size (hdr_of_bytes big_page_hdr)) =
        Some 2147483648"
      by (simp add: big_page_hdr_facts big_page_ALIGN)
    show "ALIGN (vendor_ramdisk_size (hdr_of_bytes big_page_hdr))
        (page_size (hdr_of_bytes big_page_hdr)) = Some 0"
      by (simp add: big_page_hdr_facts big_page_ALIGN)
    show "2147483649 = unat (vendor_ramdisk_size (hdr_of_bytes big_page_hdr))"
      by (simp add: big_page_hdr_facts)
    show "(2147483649 :: nat) \<noteq> 0" by simp
    show "unat (2147483648 :: u32) + 2147483649 \<le> length big_page_image"
      by (simp add: big_page_image_facts)
    show "1 = unat (dtb_size (hdr_of_bytes big_page_hdr))"
      by (simp add: big_page_hdr_facts)
    show "(1 :: nat) \<noteq> 0" by simp
    show "unat (2147483648 :: u32) + unat (0 :: u32) + 1 \<le> length big_page_image"
      by (simp add: big_page_image_facts)
    show "image_path \<noteq> VENDOR_RAMDISK" by (rule image_world_simps)
    show "c_string (drop 28 (take sizeof_hdr big_page_image)) =
        Some (takeWhile (\<lambda>b. b \<noteq> 0) (drop 28 (take sizeof_hdr big_page_image)))"
      by (simp add: big_page_image_facts big_page_hdr_facts c_string_Some)
    show "c_string (drop 2080 (take sizeof_hdr big_page_image)) =
        Some (takeWhile (\<lambda>b. b \<noteq> 0) (drop 2080 (take sizeof_hdr big_page_image)))"
      by (simp add: big_page_image_facts big_page_hdr_facts c_string_Some)
  qed
  show ?thesis
    unfolding run
    by (simp add: big_page_hdr_facts big_page_image_facts big_page_ramdisk_def
        VENDOR_names_distinct)
qed

lemma example_image_facts:
  "take sizeof_hdr example_image = example_hdr"
  "length example_image = 8197"
  by (simp_all add: example_image_def example_hdr_facts example_lengths sizeof_hdr_eq)

subsection \<open>Runs that fail\<close>

lemma read_ramdisk_eof:
  assumes "files w (s_path f) = Some c" "s_data f = c" "n = unat (vendor_ramdisk_size h)"
    "malloc_ok e n" "\<not> read_fault e (s_pos f) n" "length c - s_pos f < n"
  shows "main_read_ramdisk e h raw p sh f w =
           (EXIT_FAILURE,
            w\<lparr>trace := trace w @ [Stdout Msg_reading_ramdisk, Fread (s_pos f) n,
                 Stderr Err_cant_read, Stderr Msg_eof, Fclose p]\<rparr>)"
proof -
  have rd: "file_read e n f (w\<lparr>trace := trace w @ [Stdout Msg_reading_ramdisk]\<rparr>) =
      (Read_failed, f\<lparr>s_pos := s_pos f + (length c - s_pos f)\<rparr>,
       w\<lparr>trace := trace w @ [Stdout Msg_reading_ramdisk, Fread (s_pos f) n,
            Stderr Err_cant_read, Stderr Msg_eof]\<rparr>)"
    using assms(1,2,5,6) by (simp add: file_read_eof)
  show ?thesis
    using assms(4)
    by (simp add: main_read_ramdisk_def Let_def assms(3) [symmetric] rd emit_def
        err2_def err1_def fclose_def)
qed

lemma read_dtb_eof:
  assumes "files w (s_path f) = Some c" "s_data f = c" "n = unat (dtb_size h)"
    "malloc_ok e n" "\<not> read_fault e (s_pos f) n" "length c - s_pos f < n"
  shows "main_read_dtb e h raw p f w =
           (EXIT_FAILURE,
            w\<lparr>trace := trace w @ [Stdout Msg_reading_dtb, Fread (s_pos f) n,
                 Stderr Err_cant_read, Stderr Msg_eof, Fclose p]\<rparr>)"
proof -
  have rd: "file_read e n f (w\<lparr>trace := trace w @ [Stdout Msg_reading_dtb]\<rparr>) =
      (Read_failed, f\<lparr>s_pos := s_pos f + (length c - s_pos f)\<rparr>,
       w\<lparr>trace := trace w @ [Stdout Msg_reading_dtb, Fread (s_pos f) n,
            Stderr Err_cant_read, Stderr Msg_eof]\<rparr>)"
    using assms(1,2,5,6) by (simp add: file_read_eof)
  show ?thesis
    using assms(4)
    by (simp add: main_read_dtb_def Let_def assms(3) [symmetric] rd emit_def
        err2_def err1_def fclose_def)
qed

lemma read_ramdisk_zero:
  assumes "unat (vendor_ramdisk_size h) = 0"
  shows "main_read_ramdisk e h raw p sh f w =
           (EXIT_FAILURE,
            w\<lparr>trace := trace w @ [Stdout Msg_reading_ramdisk, Fread (s_pos f) 0,
                 Stderr Err_cant_read, Fclose p]\<rparr>)"
  using assms
  by (simp add: main_read_ramdisk_def Let_def file_read_zero emit_def
      err2_def err1_def fclose_def)

lemma read_dtb_zero:
  assumes "unat (dtb_size h) = 0"
  shows "main_read_dtb e h raw p f w =
           (EXIT_FAILURE,
            w\<lparr>trace := trace w @ [Stdout Msg_reading_dtb, Fread (s_pos f) 0,
                 Stderr Err_cant_read, Fclose p]\<rparr>)"
  using assms
  by (simp add: main_read_dtb_def Let_def file_read_zero emit_def
      err2_def err1_def fclose_def)

lemma main_zero_page:
  assumes f: "files w p = Some img" and len: "sizeof_hdr \<le> length img"
    and mg: "take 8 img = VENDOR_BOOT_MAGIC" and rf: "\<not> read_fault e 0 sizeof_hdr"
    and ps: "page_size (hdr_of_bytes (take sizeof_hdr img)) = 0"
  shows "main app [p] e w =
           (Crashed Division_by_zero,
            w\<lparr>trace := trace w @ [Fopen_r p, Stdout Msg_reading_header, Fread 0 sizeof_hdr]\<rparr>)"
  by (simp add: main_header_ok [OF f len rf mg] main_skip_header_def ps ALIGN_def PAGES_def)

lemma main_ramdisk_eof:
  assumes f: "files w p = Some img" and len: "sizeof_hdr \<le> length img"
    and mg: "take 8 img = VENDOR_BOOT_MAGIC" and nf: "no_faults e"
    and h: "h = hdr_of_bytes (take sizeof_hdr img)"
    and a: "ALIGN (word_of_int VENDOR_HEADER_SIZE) (page_size h) = Some a"
    and n: "n = unat (vendor_ramdisk_size h)" "length img - unat a < n"
  shows "main app [p] e w =
           (EXIT_FAILURE,
            w\<lparr>trace := trace w @
               [Fopen_r p, Stdout Msg_reading_header, Fread 0 sizeof_hdr, Fseek (unat a),
                Stdout Msg_reading_ramdisk, Fread (unat a) n,
                Stderr Err_cant_read, Stderr Msg_eof, Fclose p]\<rparr>)"
proof -
  let ?f1 = "\<lparr>s_path = p, s_pos = unat a, s_data = img\<rparr>"
  let ?w1 = "w\<lparr>trace := trace w @
                [Fopen_r p, Stdout Msg_reading_header, Fread 0 sizeof_hdr, Fseek (unat a)]\<rparr>"
  have f1: "files ?w1 (s_path ?f1) = Some img" using f by simp
  have "main app [p] e w = main_read_ramdisk e h (take sizeof_hdr img) p (unat a) ?f1 ?w1"
    by (rule main_reaches_ramdisk [OF f len mg nf h a])
  also have "\<dots> =
      (EXIT_FAILURE,
       ?w1\<lparr>trace := trace ?w1 @ [Stdout Msg_reading_ramdisk, Fread (s_pos ?f1) n,
            Stderr Err_cant_read, Stderr Msg_eof, Fclose p]\<rparr>)"
    by (rule read_ramdisk_eof [OF f1 _ n(1) no_faultsD(3) [OF nf] no_faultsD(1) [OF nf]])
       (use n(2) in simp_all)
  finally show ?thesis by simp
qed

lemma main_ramdisk_zero:
  assumes f: "files w p = Some img" and len: "sizeof_hdr \<le> length img"
    and mg: "take 8 img = VENDOR_BOOT_MAGIC" and nf: "no_faults e"
    and h: "h = hdr_of_bytes (take sizeof_hdr img)"
    and a: "ALIGN (word_of_int VENDOR_HEADER_SIZE) (page_size h) = Some a"
    and n: "unat (vendor_ramdisk_size h) = 0"
  shows "main app [p] e w =
           (EXIT_FAILURE,
            w\<lparr>trace := trace w @
               [Fopen_r p, Stdout Msg_reading_header, Fread 0 sizeof_hdr, Fseek (unat a),
                Stdout Msg_reading_ramdisk, Fread (unat a) 0,
                Stderr Err_cant_read, Fclose p]\<rparr>)"
  by (simp add: main_reaches_ramdisk [OF f len mg nf h a] read_ramdisk_zero [OF n])

lemma main_dtb_eof:
  assumes f: "files w p = Some img" and len: "sizeof_hdr \<le> length img"
    and mg: "take 8 img = VENDOR_BOOT_MAGIC" and nf: "no_faults e"
    and h: "h = hdr_of_bytes (take sizeof_hdr img)"
    and a: "ALIGN (word_of_int VENDOR_HEADER_SIZE) (page_size h) = Some a"
    and b: "ALIGN (vendor_ramdisk_size h) (page_size h) = Some b"
    and n: "n = unat (vendor_ramdisk_size h)" "n \<noteq> 0" "unat a + n \<le> length img"
    and p: "p \<noteq> VENDOR_RAMDISK"
    and m: "m = unat (dtb_size h)" "length img - (unat a + unat b) < m"
  shows "main app [p] e w =
           (EXIT_FAILURE,
            w\<lparr>files := (files w)(VENDOR_RAMDISK \<mapsto> take n (drop (unat a) img)),
              trace := trace w @
               [Fopen_r p, Stdout Msg_reading_header, Fread 0 sizeof_hdr, Fseek (unat a),
                Stdout Msg_reading_ramdisk, Fread (unat a) n, Fopen_w VENDOR_RAMDISK,
                Fwrite VENDOR_RAMDISK n, Fclose VENDOR_RAMDISK, Fseek (unat a + unat b),
                Stdout Msg_reading_dtb, Fread (unat a + unat b) m,
                Stderr Err_cant_read, Stderr Msg_eof, Fclose p]\<rparr>)"
proof -
  let ?f2 = "\<lparr>s_path = p, s_pos = unat a + unat b, s_data = img\<rparr>"
  let ?w2 = "w\<lparr>files := (files w)(VENDOR_RAMDISK \<mapsto> take n (drop (unat a) img)),
                trace := trace w @
                [Fopen_r p, Stdout Msg_reading_header, Fread 0 sizeof_hdr, Fseek (unat a),
                 Stdout Msg_reading_ramdisk, Fread (unat a) n, Fopen_w VENDOR_RAMDISK,
                 Fwrite VENDOR_RAMDISK n, Fclose VENDOR_RAMDISK, Fseek (unat a + unat b)]\<rparr>"
  have f2: "files ?w2 (s_path ?f2) = Some img" using f p by simp
  have "main app [p] e w = main_read_dtb e h (take sizeof_hdr img) p ?f2 ?w2"
    by (rule main_reaches_dtb [OF f len mg nf h a b n])
  also have "\<dots> =
      (EXIT_FAILURE,
       ?w2\<lparr>trace := trace ?w2 @ [Stdout Msg_reading_dtb, Fread (s_pos ?f2) m,
            Stderr Err_cant_read, Stderr Msg_eof, Fclose p]\<rparr>)"
    by (rule read_dtb_eof [OF f2 _ m(1) no_faultsD(3) [OF nf] no_faultsD(1) [OF nf]])
       (use m(2) in simp_all)
  finally show ?thesis by simp
qed

lemma main_dtb_zero:
  assumes f: "files w p = Some img" and len: "sizeof_hdr \<le> length img"
    and mg: "take 8 img = VENDOR_BOOT_MAGIC" and nf: "no_faults e"
    and h: "h = hdr_of_bytes (take sizeof_hdr img)"
    and a: "ALIGN (word_of_int VENDOR_HEADER_SIZE) (page_size h) = Some a"
    and b: "ALIGN (vendor_ramdisk_size h) (page_size h) = Some b"
    and n: "n = unat (vendor_ramdisk_size h)" "n \<noteq> 0" "unat a + n \<le> length img"
    and m: "unat (dtb_size h) = 0"
  shows "main app [p] e w =
           (EXIT_FAILURE,
            w\<lparr>files := (files w)(VENDOR_RAMDISK \<mapsto> take n (drop (unat a) img)),
              trace := trace w @
               [Fopen_r p, Stdout Msg_reading_header, Fread 0 sizeof_hdr, Fseek (unat a),
                Stdout Msg_reading_ramdisk, Fread (unat a) n, Fopen_w VENDOR_RAMDISK,
                Fwrite VENDOR_RAMDISK n, Fclose VENDOR_RAMDISK, Fseek (unat a + unat b),
                Stdout Msg_reading_dtb, Fread (unat a + unat b) 0,
                Stderr Err_cant_read, Fclose p]\<rparr>)"
  by (simp add: main_reaches_dtb [OF f len mg nf h a b n] read_dtb_zero [OF m])

lemma mk_header_image:
  assumes "length mg = 8" "length cl = 2048" "length nm = 16"
  shows "take sizeof_hdr (mk_header mg ps rs ds cl ta nm @ rest) = mk_header mg ps rs ds cl ta nm"
    "take 8 (mk_header mg ps rs ds cl ta nm @ rest) = mg"
    "sizeof_hdr \<le> length (mk_header mg ps rs ds cl ta nm @ rest)"
    "length (mk_header mg ps rs ds cl ta nm @ rest) = 2112 + length rest"
proof -
  show "take sizeof_hdr (mk_header mg ps rs ds cl ta nm @ rest) = mk_header mg ps rs ds cl ta nm"
    using assms by (simp add: length_mk_header sizeof_hdr_eq)
  show "take 8 (mk_header mg ps rs ds cl ta nm @ rest) = mg"
    using assms(1) by (rule take_magic_mk_header)
  show "sizeof_hdr \<le> length (mk_header mg ps rs ds cl ta nm @ rest)"
    using assms by (simp add: length_mk_header sizeof_hdr_eq)
  show "length (mk_header mg ps rs ds cl ta nm @ rest) = 2112 + length rest"
    using assms by (simp add: length_mk_header)
qed

lemma example_ALIGN:
  "ALIGN (word_of_int VENDOR_HEADER_SIZE) 4096 = Some 4096"
  "ALIGN 10 4096 = Some 4096" "ALIGN 0 4096 = Some 0"
  by (simp_all add: ALIGN_def PAGES_def VENDOR_HEADER_SIZE_def)

lemma image_path_distinct: "image_path \<noteq> VENDOR_DTB" "VENDOR_RAMDISK \<noteq> image_path"
  "VENDOR_DTB \<noteq> image_path"
  by (simp_all add: image_path_def VENDOR_RAMDISK_def VENDOR_DTB_def)

text \<open>
  Claim C5. When the first 8 bytes of the image differ from \<^verbatim>\<open>VNDRBOOT\<close>, the run does not
  end with success: it exits with \<^verbatim>\<open>EXIT_FAILURE\<close> (or, when the 2112 header bytes contain no
  NUL at all, the \<^verbatim>\<open>%s\<close> of the error message leaves the header). In either case no file
  is changed, and the trace contains no opening of and no write to an output file.
\<close>

theorem magic_mismatch_aborts:
  assumes "files w p = Some img" and "take 8 img \<noteq> VENDOR_BOOT_MAGIC"
  shows "fst (main app [p] e w) \<noteq> EXIT_SUCCESS \<and>
         (fst (main app [p] e w) = EXIT_FAILURE \<or>
          fst (main app [p] e w) = Crashed String_overread \<and> 0 \<notin> set (take sizeof_hdr img)) \<and>
         files (snd (main app [p] e w)) = files w \<and>
         (\<exists>evs. trace (snd (main app [p] e w)) = trace w @ evs \<and>
                filter is_output_io evs = [])"
proof (cases "sizeof_hdr \<le> length img \<and> \<not> read_fault e 0 sizeof_hdr")
  case True
  let ?raw = "take sizeof_hdr img"
  have len: "8 \<le> length ?raw" using True by (simp add: sizeof_hdr_eq)
  have ne: "take 8 ?raw \<noteq> VENDOR_BOOT_MAGIC" using assms(2) by (simp add: sizeof_hdr_eq)
  from strncmp_magic [OF len] ne obtain d where
    d: "strncmp ?raw (VENDOR_BOOT_MAGIC @ [0]) VENDOR_BOOT_MAGIC_SIZE = Some d" "d \<noteq> 0"
    by auto
  have sz: "sizeof_hdr \<noteq> 0" by (simp add: sizeof_hdr_eq)
  show ?thesis
    using assms(1) True sz d
    by (simp add: main_def parse_args_def fopen_r_def file_read_ok emit_def offsetof_simps
        err1_def fclose_def c_string_def)
next
  case False
  then show ?thesis
    using assms(1)
    by (auto simp: main_def parse_args_def fopen_r_def file_read_def Let_def emit_def
        err1_def fclose_def sizeof_hdr_eq)
qed

lemma bad_magic_image_facts:
  "take 8 bad_magic_image \<noteq> VENDOR_BOOT_MAGIC"
proof -
  have "take 8 bad_magic_image = map of_char ''ANDROID!''"
    unfolding bad_magic_image_def
    by (rule mk_header_image(2)) (simp_all add: example_lengths)
  then show ?thesis by (simp add: VENDOR_BOOT_MAGIC_def)
qed

lemma bad_magic_image_nul: "0 \<in> set (take sizeof_hdr bad_magic_image)"
proof -
  have "take sizeof_hdr bad_magic_image =
      mk_header (map of_char ''ANDROID!'') 4096 10 5 example_cmdline 0 example_name"
    unfolding bad_magic_image_def
    by (rule mk_header_image(1)) (simp_all add: example_lengths)
  then show ?thesis by (simp add: mk_header_def example_name_def)
qed

text \<open>
  The theorem on the example image carrying the magic \<^verbatim>\<open>ANDROID!\<close>.
\<close>

theorem magic_mismatch_witness:
  "fst (main ''unpack_vendor_boot'' [image_path] ok_env (image_world bad_magic_image))
     = EXIT_FAILURE \<and>
   files (snd (main ''unpack_vendor_boot'' [image_path] ok_env (image_world bad_magic_image)))
     = files (image_world bad_magic_image) \<and>
   (\<exists>evs. trace (snd (main ''unpack_vendor_boot'' [image_path] ok_env
              (image_world bad_magic_image))) = evs \<and> filter is_output_io evs = [])"
  using magic_mismatch_aborts [of "image_world bad_magic_image" image_path bad_magic_image
      "''unpack_vendor_boot''" ok_env]
  by (simp add: image_world_simps bad_magic_image_facts bad_magic_image_nul)

lemma example_built_facts:
  assumes "I = mk_header VENDOR_BOOT_MAGIC ps rs ds example_cmdline ta example_name @ rest"
  shows "take sizeof_hdr I = mk_header VENDOR_BOOT_MAGIC ps rs ds example_cmdline ta example_name"
    "take 8 I = VENDOR_BOOT_MAGIC" "sizeof_hdr \<le> length I" "length I = 2112 + length rest"
    "page_size (hdr_of_bytes (take sizeof_hdr I)) = word_of_nat ps"
    "vendor_ramdisk_size (hdr_of_bytes (take sizeof_hdr I)) = word_of_nat rs"
    "dtb_size (hdr_of_bytes (take sizeof_hdr I)) = word_of_nat ds"
proof -
  have l: "length VENDOR_BOOT_MAGIC = 8" "length example_cmdline = 2048"
    "length example_name = 16"
    by (simp_all add: magic_no_nul example_lengths)
  show 1: "take sizeof_hdr I =
      mk_header VENDOR_BOOT_MAGIC ps rs ds example_cmdline ta example_name"
    unfolding assms by (rule mk_header_image(1) [OF l])
  show "take 8 I = VENDOR_BOOT_MAGIC"
    unfolding assms by (rule mk_header_image(2) [OF l])
  show "sizeof_hdr \<le> length I"
    unfolding assms by (rule mk_header_image(3) [OF l])
  show "length I = 2112 + length rest"
    unfolding assms by (rule mk_header_image(4) [OF l])
  show "page_size (hdr_of_bytes (take sizeof_hdr I)) = word_of_nat ps"
    "vendor_ramdisk_size (hdr_of_bytes (take sizeof_hdr I)) = word_of_nat rs"
    "dtb_size (hdr_of_bytes (take sizeof_hdr I)) = word_of_nat ds"
    unfolding 1 by (simp_all add: hdr_of_mk_header [OF l])
qed

lemma example_mk_header_fields:
  "page_size (hdr_of_bytes
     (mk_header VENDOR_BOOT_MAGIC ps rs ds example_cmdline ta example_name)) = word_of_nat ps"
  "vendor_ramdisk_size (hdr_of_bytes
     (mk_header VENDOR_BOOT_MAGIC ps rs ds example_cmdline ta example_name)) = word_of_nat rs"
  "dtb_size (hdr_of_bytes
     (mk_header VENDOR_BOOT_MAGIC ps rs ds example_cmdline ta example_name)) = word_of_nat ds"
  by (simp_all add: hdr_of_mk_header magic_no_nul example_lengths)

lemmas zero_page_facts = example_built_facts [OF zero_page_image_def]
lemmas empty_ramdisk_facts = example_built_facts [OF empty_ramdisk_image_def]
lemmas empty_dtb_facts = example_built_facts [OF empty_dtb_image_def]
lemmas short_ramdisk_facts =
  example_built_facts [OF short_ramdisk_image_def [unfolded example_hdr_def append_assoc]]
lemmas short_dtb_facts =
  example_built_facts [OF short_dtb_image_def [unfolded example_hdr_def append_assoc]]

text \<open>
  Claim C4 does not hold for the code. On an image with the right magic and page size 0 the
  run is not rejected: after reading the header it evaluates \<open>ALIGN(2112, 0)\<close>, a division by
  zero, and ends there without any error message.
\<close>

theorem zero_page_size_divides:
  "page_size (hdr_of_bytes (take sizeof_hdr zero_page_image)) = 0 \<and>
   main ''unpack_vendor_boot'' [image_path] ok_env (image_world zero_page_image) =
     (Crashed Division_by_zero,
      \<lparr>files = [image_path \<mapsto> zero_page_image],
       trace = [Fopen_r image_path, Stdout Msg_reading_header, Fread 0 2112]\<rparr>)"
proof -
  have ps: "page_size (hdr_of_bytes (take sizeof_hdr zero_page_image)) = 0"
    by (simp add: zero_page_facts(1) example_mk_header_fields)
  have "main ''unpack_vendor_boot'' [image_path] ok_env (image_world zero_page_image) =
      (Crashed Division_by_zero,
       (image_world zero_page_image)\<lparr>trace := trace (image_world zero_page_image) @
          [Fopen_r image_path, Stdout Msg_reading_header, Fread 0 sizeof_hdr]\<rparr>)"
    by (rule main_zero_page [OF image_world_simps(1) zero_page_facts(3,2) _ ps])
       (simp add: ok_env_def)
  then show ?thesis
    using ps by (simp add: image_world_def sizeof_hdr_eq)
qed

text \<open>
  Claim C6. Let the run reach the segments: the header is complete, the magic is right, the
  page size is nonzero, and the environment causes no fault. If the declared ramdisk size
  exceeds the bytes left after the aligned header, the run prints the read error with the
  end-of-file line and exits with failure, and no file is changed. If the ramdisk is
  complete, the image is not itself named \<^verbatim>\<open>vendor_ramdisk.img\<close>, and the declared dtb size
  exceeds the bytes left in the image at the dtb offset, the run ends in the same way after
  writing the ramdisk: the dtb file is neither opened nor changed.
\<close>

theorem truncated_segment_fails:
  assumes f: "files w p = Some img" and len: "sizeof_hdr \<le> length img"
    and mg: "take 8 img = VENDOR_BOOT_MAGIC" and nf: "no_faults e"
    and h: "h = hdr_of_bytes (take sizeof_hdr img)"
    and a: "ALIGN (word_of_int VENDOR_HEADER_SIZE) (page_size h) = Some a"
    and b: "ALIGN (vendor_ramdisk_size h) (page_size h) = Some b"
    and n: "n = unat (vendor_ramdisk_size h)" and m: "m = unat (dtb_size h)"
  shows "(length img - unat a < n \<longrightarrow>
            main app [p] e w =
              (EXIT_FAILURE,
               w\<lparr>trace := trace w @
                 [Fopen_r p, Stdout Msg_reading_header, Fread 0 sizeof_hdr, Fseek (unat a),
                  Stdout Msg_reading_ramdisk, Fread (unat a) n,
                  Stderr Err_cant_read, Stderr Msg_eof, Fclose p]\<rparr>)) \<and>
         (n \<noteq> 0 \<and> unat a + n \<le> length img \<and> p \<noteq> VENDOR_RAMDISK \<and>
          length img - (unat a + unat b) < m \<longrightarrow>
            main app [p] e w =
              (EXIT_FAILURE,
               w\<lparr>files := (files w)(VENDOR_RAMDISK \<mapsto> take n (drop (unat a) img)),
                 trace := trace w @
                 [Fopen_r p, Stdout Msg_reading_header, Fread 0 sizeof_hdr, Fseek (unat a),
                  Stdout Msg_reading_ramdisk, Fread (unat a) n, Fopen_w VENDOR_RAMDISK,
                  Fwrite VENDOR_RAMDISK n, Fclose VENDOR_RAMDISK, Fseek (unat a + unat b),
                  Stdout Msg_reading_dtb, Fread (unat a + unat b) m,
                  Stderr Err_cant_read, Stderr Msg_eof, Fclose p]\<rparr>) \<and>
            files (snd (main app [p] e w)) VENDOR_DTB = files w VENDOR_DTB)"
proof (intro conjI impI)
  assume "length img - unat a < n"
  then show "main app [p] e w =
      (EXIT_FAILURE,
       w\<lparr>trace := trace w @
         [Fopen_r p, Stdout Msg_reading_header, Fread 0 sizeof_hdr, Fseek (unat a),
          Stdout Msg_reading_ramdisk, Fread (unat a) n,
          Stderr Err_cant_read, Stderr Msg_eof, Fclose p]\<rparr>)"
    by (rule main_ramdisk_eof [OF f len mg nf h a n])
next
  assume *: "n \<noteq> 0 \<and> unat a + n \<le> length img \<and> p \<noteq> VENDOR_RAMDISK \<and>
      length img - (unat a + unat b) < m"
  then have n': "n \<noteq> 0" "unat a + n \<le> length img"
    and c: "p \<noteq> VENDOR_RAMDISK"
    and short: "length img - (unat a + unat b) < m"
    by simp_all
  show run: "main app [p] e w =
      (EXIT_FAILURE,
       w\<lparr>files := (files w)(VENDOR_RAMDISK \<mapsto> take n (drop (unat a) img)),
         trace := trace w @
         [Fopen_r p, Stdout Msg_reading_header, Fread 0 sizeof_hdr, Fseek (unat a),
          Stdout Msg_reading_ramdisk, Fread (unat a) n, Fopen_w VENDOR_RAMDISK,
          Fwrite VENDOR_RAMDISK n, Fclose VENDOR_RAMDISK, Fseek (unat a + unat b),
          Stdout Msg_reading_dtb, Fread (unat a + unat b) m,
          Stderr Err_cant_read, Stderr Msg_eof, Fclose p]\<rparr>)"
    by (rule main_dtb_eof [OF f len mg nf h a b n n' c m short])
  show "files (snd (main app [p] e w)) VENDOR_DTB = files w VENDOR_DTB"
    unfolding run by (simp add: VENDOR_names_distinct)
qed

text \<open>
  The theorem on the example image cut off inside the ramdisk and cut off inside the dtb.
\<close>

theorem truncated_segment_witness:
  "main ''unpack_vendor_boot'' [image_path] ok_env (image_world short_ramdisk_image) =
     (EXIT_FAILURE,
      \<lparr>files = [image_path \<mapsto> short_ramdisk_image],
       trace = [Fopen_r image_path, Stdout Msg_reading_header, Fread 0 2112, Fseek 4096,
                Stdout Msg_reading_ramdisk, Fread 4096 10,
                Stderr Err_cant_read, Stderr Msg_eof, Fclose image_path]\<rparr>) \<and>
   fst (main ''unpack_vendor_boot'' [image_path] ok_env (image_world short_dtb_image)) =
     EXIT_FAILURE \<and>
   files (snd (main ''unpack_vendor_boot'' [image_path] ok_env (image_world short_dtb_image)))
     VENDOR_DTB = None"
proof -
  let ?h1 = "hdr_of_bytes (take sizeof_hdr short_ramdisk_image)"
  let ?h2 = "hdr_of_bytes (take sizeof_hdr short_dtb_image)"
  have a1: "ALIGN (word_of_int VENDOR_HEADER_SIZE) (page_size ?h1) = Some 4096"
    and b1: "ALIGN (vendor_ramdisk_size ?h1) (page_size ?h1) = Some 4096"
    and n1: "10 = unat (vendor_ramdisk_size ?h1)" and m1: "5 = unat (dtb_size ?h1)"
    by (simp_all add: short_ramdisk_facts(1) example_mk_header_fields example_ALIGN)
  have a2: "ALIGN (word_of_int VENDOR_HEADER_SIZE) (page_size ?h2) = Some 4096"
    and b2: "ALIGN (vendor_ramdisk_size ?h2) (page_size ?h2) = Some 4096"
    and n2: "10 = unat (vendor_ramdisk_size ?h2)" and m2: "5 = unat (dtb_size ?h2)"
    by (simp_all add: short_dtb_facts(1) example_mk_header_fields example_ALIGN)
  have s1: "length short_ramdisk_image - unat (4096 :: u32) < 10"
    by (simp add: short_ramdisk_facts(4) example_lengths)
  have s2: "10 \<noteq> (0 :: nat) \<and> unat (4096 :: u32) + 10 \<le> length short_dtb_image \<and>
      image_path \<noteq> VENDOR_RAMDISK \<and>
      length short_dtb_image - (unat (4096 :: u32) + unat (4096 :: u32)) < 5"
    by (simp add: short_dtb_facts(4) example_lengths image_world_simps)
  from truncated_segment_fails [where app = "''unpack_vendor_boot''",
      OF image_world_simps(1) short_ramdisk_facts(3,2) no_faults_ok_env refl a1 b1 n1 m1] s1
  have r1: "main ''unpack_vendor_boot'' [image_path] ok_env (image_world short_ramdisk_image) =
      (EXIT_FAILURE,
       (image_world short_ramdisk_image)\<lparr>trace := trace (image_world short_ramdisk_image) @
         [Fopen_r image_path, Stdout Msg_reading_header, Fread 0 sizeof_hdr,
          Fseek (unat (4096 :: u32)), Stdout Msg_reading_ramdisk, Fread (unat (4096 :: u32)) 10,
          Stderr Err_cant_read, Stderr Msg_eof, Fclose image_path]\<rparr>)"
    by blast
  note t2 = truncated_segment_fails [where app = "''unpack_vendor_boot''",
      OF image_world_simps(1) short_dtb_facts(3,2) no_faults_ok_env refl a2 b2 n2 m2]
  note t2' = t2 [THEN conjunct2, THEN mp, OF s2]
  have r2: "fst (main ''unpack_vendor_boot'' [image_path] ok_env (image_world short_dtb_image))
        = EXIT_FAILURE"
    using t2' [THEN conjunct1] by simp
  have r3: "files (snd (main ''unpack_vendor_boot'' [image_path] ok_env
        (image_world short_dtb_image))) VENDOR_DTB = files (image_world short_dtb_image) VENDOR_DTB"
    by (rule t2' [THEN conjunct2])
  show ?thesis
    unfolding r1 r2 r3
    by (simp add: image_world_def image_path_distinct sizeof_hdr_eq)
qed

text \<open>
  Claim C7, amended. On an otherwise valid image whose declared ramdisk size or dtb size is
  0, the run does not crash, and it does not succeed either: \<^verbatim>\<open>fread\<close> of a zero-size
  element returns 0, so \<^verbatim>\<open>file_read\<close> reports a read error and the run exits with failure.
  No output file is created for that segment (for a dtb of size 0 the ramdisk has been
  written before).
\<close>

theorem zero_size_rejected:
  assumes f: "files w p = Some img" and len: "sizeof_hdr \<le> length img"
    and mg: "take 8 img = VENDOR_BOOT_MAGIC" and nf: "no_faults e"
    and h: "h = hdr_of_bytes (take sizeof_hdr img)"
    and a: "ALIGN (word_of_int VENDOR_HEADER_SIZE) (page_size h) = Some a"
    and b: "ALIGN (vendor_ramdisk_size h) (page_size h) = Some b"
    and n: "n = unat (vendor_ramdisk_size h)"
  shows "(n = 0 \<longrightarrow>
            main app [p] e w =
              (EXIT_FAILURE,
               w\<lparr>trace := trace w @
                 [Fopen_r p, Stdout Msg_reading_header, Fread 0 sizeof_hdr, Fseek (unat a),
                  Stdout Msg_reading_ramdisk, Fread (unat a) 0,
                  Stderr Err_cant_read, Fclose p]\<rparr>)) \<and>
         (n \<noteq> 0 \<and> unat a + n \<le> length img \<and> unat (dtb_size h) = 0 \<longrightarrow>
            main app [p] e w =
              (EXIT_FAILURE,
               w\<lparr>files := (files w)(VENDOR_RAMDISK \<mapsto> take n (drop (unat a) img)),
                 trace := trace w @
                 [Fopen_r p, Stdout Msg_reading_header, Fread 0 sizeof_hdr, Fseek (unat a),
                  Stdout Msg_reading_ramdisk, Fread (unat a) n, Fopen_w VENDOR_RAMDISK,
                  Fwrite VENDOR_RAMDISK n, Fclose VENDOR_RAMDISK, Fseek (unat a + unat b),
                  Stdout Msg_reading_dtb, Fread (unat a + unat b) 0,
                  Stderr Err_cant_read, Fclose p]\<rparr>) \<and>
            files (snd (main app [p] e w)) VENDOR_DTB = files w VENDOR_DTB)"
proof (intro conjI impI)
  assume "n = 0"
  then have "unat (vendor_ramdisk_size h) = 0" using n by simp
  then show "main app [p] e w =
      (EXIT_FAILURE,
       w\<lparr>trace := trace w @
         [Fopen_r p, Stdout Msg_reading_header, Fread 0 sizeof_hdr, Fseek (unat a),
          Stdout Msg_reading_ramdisk, Fread (unat a) 0,
          Stderr Err_cant_read, Fclose p]\<rparr>)"
    by (rule main_ramdisk_zero [OF f len mg nf h a])
next
  assume *: "n \<noteq> 0 \<and> unat a + n \<le> length img \<and> unat (dtb_size h) = 0"
  then have n': "n \<noteq> 0" "unat a + n \<le> length img" and m: "unat (dtb_size h) = 0"
    by simp_all
  show run: "main app [p] e w =
      (EXIT_FAILURE,
       w\<lparr>files := (files w)(VENDOR_RAMDISK \<mapsto> take n (drop (unat a) img)),
         trace := trace w @
         [Fopen_r p, Stdout Msg_reading_header, Fread 0 sizeof_hdr, Fseek (unat a),
          Stdout Msg_reading_ramdisk, Fread (unat a) n, Fopen_w VENDOR_RAMDISK,
          Fwrite VENDOR_RAMDISK n, Fclose VENDOR_RAMDISK, Fseek (unat a + unat b),
          Stdout Msg_reading_dtb, Fread (unat a + unat b) 0,
          Stderr Err_cant_read, Fclose p]\<rparr>)"
    by (rule main_dtb_zero [OF f len mg nf h a b n n' m])
  show "files (snd (main app [p] e w)) VENDOR_DTB = files w VENDOR_DTB"
    unfolding run by (simp add: VENDOR_names_distinct)
qed

text \<open>
  The theorem on the example image with an empty ramdisk and with an empty dtb.
\<close>

theorem zero_size_rejected_witness:
  "main ''unpack_vendor_boot'' [image_path] ok_env (image_world empty_ramdisk_image) =
     (EXIT_FAILURE,
      \<lparr>files = [image_path \<mapsto> empty_ramdisk_image],
       trace = [Fopen_r image_path, Stdout Msg_reading_header, Fread 0 2112, Fseek 4096,
                Stdout Msg_reading_ramdisk, Fread 4096 0, Stderr Err_cant_read,
                Fclose image_path]\<rparr>) \<and>
   fst (main ''unpack_vendor_boot'' [image_path] ok_env (image_world empty_dtb_image)) =
     EXIT_FAILURE \<and>
   files (snd (main ''unpack_vendor_boot'' [image_path] ok_env (image_world empty_dtb_image)))
     VENDOR_DTB = None"
proof -
  let ?h1 = "hdr_of_bytes (take sizeof_hdr empty_ramdisk_image)"
  let ?h2 = "hdr_of_bytes (take sizeof_hdr empty_dtb_image)"
  have a1: "ALIGN (word_of_int VENDOR_HEADER_SIZE) (page_size ?h1) = Some 4096"
    and b1: "ALIGN (vendor_ramdisk_size ?h1) (page_size ?h1) = Some 0"
    and n1: "0 = unat (vendor_ramdisk_size ?h1)"
    by (simp_all add: empty_ramdisk_facts(1) example_mk_header_fields example_ALIGN)
  have a2: "ALIGN (word_of_int VENDOR_HEADER_SIZE) (page_size ?h2) = Some 4096"
    and b2: "ALIGN (vendor_ramdisk_size ?h2) (page_size ?h2) = Some 4096"
    and n2: "10 = unat (vendor_ramdisk_size ?h2)"
    by (simp_all add: empty_dtb_facts(1) example_mk_header_fields example_ALIGN)
  have s2: "10 \<noteq> (0 :: nat) \<and> unat (4096 :: u32) + 10 \<le> length empty_dtb_image \<and>
      unat (dtb_size ?h2) = 0"
    by (simp add: empty_dtb_facts(4) example_lengths)
       (simp add: empty_dtb_facts(1) example_mk_header_fields)
  note t1 = zero_size_rejected [where app = "''unpack_vendor_boot''",
      OF image_world_simps(1) empty_ramdisk_facts(3,2) no_faults_ok_env refl a1 b1 n1]
  have r1: "main ''unpack_vendor_boot'' [image_path] ok_env (image_world empty_ramdisk_image) =
      (EXIT_FAILURE,
       (image_world empty_ramdisk_image)\<lparr>trace := trace (image_world empty_ramdisk_image) @
         [Fopen_r image_path, Stdout Msg_reading_header, Fread 0 sizeof_hdr,
          Fseek (unat (4096 :: u32)), Stdout Msg_reading_ramdisk, Fread (unat (4096 :: u32)) 0,
          Stderr Err_cant_read, Fclose image_path]\<rparr>)"
    by (rule t1 [THEN conjunct1, THEN mp]) simp
  note t2 = zero_size_rejected [where app = "''unpack_vendor_boot''",
      OF image_world_simps(1) empty_dtb_facts(3,2) no_faults_ok_env refl a2 b2 n2,
      THEN conjunct2, THEN mp, OF s2]
  have r2: "fst (main ''unpack_vendor_boot'' [image_path] ok_env (image_world empty_dtb_image))
        = EXIT_FAILURE"
    using t2 [THEN conjunct1] by simp
  have r3: "files (snd (main ''unpack_vendor_boot'' [image_path] ok_env
        (image_world empty_dtb_image))) VENDOR_DTB = files (image_world empty_dtb_image) VENDOR_DTB"
    by (rule t2 [THEN conjunct2])
  show ?thesis
    unfolding r1 r2 r3
    by (simp add: image_world_def image_path_distinct sizeof_hdr_eq)
qed

text \<open>
  Claim C7 as stated fails: on the example image with declared ramdisk size 0 the run
  exits with failure and there is no ramdisk file afterwards.
\<close>

theorem empty_ramdisk_no_artifact:
  "vendor_ramdisk_size (hdr_of_bytes (take sizeof_hdr empty_ramdisk_image)) = 0 \<and>
   fst (main ''unpack_vendor_boot'' [image_path] ok_env (image_world empty_ramdisk_image)) =
     EXIT_FAILURE \<and>
   files (snd (main ''unpack_vendor_boot'' [image_path] ok_env
     (image_world empty_ramdisk_image))) VENDOR_RAMDISK = None"
proof -
  let ?h1 = "hdr_of_bytes (take sizeof_hdr empty_ramdisk_image)"
  have a1: "ALIGN (word_of_int VENDOR_HEADER_SIZE) (page_size ?h1) = Some 4096"
    and n1: "unat (vendor_ramdisk_size ?h1) = 0" and z: "vendor_ramdisk_size ?h1 = 0"
    by (simp_all add: empty_ramdisk_facts(1) example_mk_header_fields example_ALIGN)
  have "main ''unpack_vendor_boot'' [image_path] ok_env (image_world empty_ramdisk_image) =
      (EXIT_FAILURE,
       (image_world empty_ramdisk_image)\<lparr>trace := trace (image_world empty_ramdisk_image) @
         [Fopen_r image_path, Stdout Msg_reading_header, Fread 0 sizeof_hdr,
          Fseek (unat (4096 :: u32)), Stdout Msg_reading_ramdisk, Fread (unat (4096 :: u32)) 0,
          Stderr Err_cant_read, Fclose image_path]\<rparr>)"
    by (rule main_ramdisk_zero [OF image_world_simps(1) empty_ramdisk_facts(3,2)
          no_faults_ok_env refl a1 n1])
  then show ?thesis
    using z by (simp add: image_world_def image_path_distinct)
qed

lemma le_bytes_4: "le_bytes 4 v =
  [word_of_nat (v mod 256), word_of_nat (v div 256 mod 256),
   word_of_nat (v div 256 div 256 mod 256), word_of_nat (v div 256 div 256 div 256 mod 256)]"
proof -
  have "(4 :: nat) = Suc (Suc (Suc (Suc 0)))" by simp
  then show ?thesis by (simp only: le_bytes.simps)
qed

lemma takeWhile_until_zeros:
  assumes "(0 :: byte) \<notin> set xs" "0 < n"
  shows "takeWhile (\<lambda>b. b \<noteq> 0) (xs @ replicate n 0 @ ys) = xs"
proof -
  from assms(2) obtain k where "n = Suc k" by (cases n) auto
  then have e: "takeWhile (\<lambda>b. b \<noteq> (0 :: byte)) (replicate n 0 @ ys) = []" by simp
  have "takeWhile (\<lambda>b. b \<noteq> 0) (xs @ (replicate n 0 @ ys)) =
      xs @ takeWhile (\<lambda>b. b \<noteq> 0) (replicate n 0 @ ys)"
    by (rule takeWhile_append2) (use assms(1) in auto)
  then show ?thesis by (simp only: e append_Nil2)
qed

lemma replicate_4: "replicate 4 x = [x, x, x, x]"
proof -
  have "(4 :: nat) = Suc (Suc (Suc (Suc 0)))" by simp
  then show ?thesis by (simp only: replicate.simps)
qed

lemma long_cmdline_facts:
  "take sizeof_hdr long_cmdline_image =
     mk_header VENDOR_BOOT_MAGIC 4096 10 5 (replicate 2048 65) 1111638594 example_name"
  "take 8 long_cmdline_image = VENDOR_BOOT_MAGIC"
  "sizeof_hdr \<le> length long_cmdline_image"
  "length long_cmdline_image = 8197"
  "hdr_of_bytes (take sizeof_hdr long_cmdline_image) =
     \<lparr>magic = VENDOR_BOOT_MAGIC, header_version = 0, page_size = 4096, kernel_addr = 0,
      ramdisk_addr = 0, vendor_ramdisk_size = 10, cmdline = replicate 2048 65,
      tags_addr = 1111638594, name = example_name, header_size = 2112,
      dtb_size = 5, dtb_addr = 0\<rparr>"
proof -
  have l: "length VENDOR_BOOT_MAGIC = 8" "length (replicate 2048 (65 :: byte)) = 2048"
    "length example_name = 16"
    by (simp_all add: magic_no_nul example_lengths)
  show 1: "take sizeof_hdr long_cmdline_image =
     mk_header VENDOR_BOOT_MAGIC 4096 10 5 (replicate 2048 65) 1111638594 example_name"
    unfolding long_cmdline_image_def by (rule mk_header_image(1) [OF l])
  show "take 8 long_cmdline_image = VENDOR_BOOT_MAGIC"
    unfolding long_cmdline_image_def by (rule mk_header_image(2) [OF l])
  show "sizeof_hdr \<le> length long_cmdline_image"
    unfolding long_cmdline_image_def by (rule mk_header_image(3) [OF l])
  show "length long_cmdline_image = 8197"
    unfolding long_cmdline_image_def
    by (simp add: length_mk_header [OF l] example_lengths)
  show "hdr_of_bytes (take sizeof_hdr long_cmdline_image) =
     \<lparr>magic = VENDOR_BOOT_MAGIC, header_version = 0, page_size = 4096, kernel_addr = 0,
      ramdisk_addr = 0, vendor_ramdisk_size = 10, cmdline = replicate 2048 65,
      tags_addr = 1111638594, name = example_name, header_size = 2112,
      dtb_size = 5, dtb_addr = 0\<rparr>"
    unfolding 1 by (simp add: hdr_of_mk_header [OF l])
qed

lemma long_cmdline_strings:
  "c_string (drop 28 (take sizeof_hdr long_cmdline_image)) =
     Some (replicate 2048 65 @ replicate 4 66 @ map of_char ''dev'')"
  "c_string (drop 2080 (take sizeof_hdr long_cmdline_image)) = Some (map of_char ''dev'')"
proof -
  have l: "length VENDOR_BOOT_MAGIC = 8" "length (replicate 2048 (65 :: byte)) = 2048"
    by (simp_all add: magic_no_nul)
  let ?tail = "le_bytes 4 2112 @ le_bytes 4 5 @ le_bytes 8 0"
  have m1: "drop 28 (take sizeof_hdr long_cmdline_image) =
      (replicate 2048 65 @ replicate 4 66 @ map of_char ''dev'') @ replicate 13 0 @ ?tail"
    unfolding long_cmdline_facts(1) cmdline_mem_mk_header [OF l]
    by (simp add: le_bytes_4 example_name_def replicate_4)
  have m2: "drop 2080 (take sizeof_hdr long_cmdline_image) =
      map of_char ''dev'' @ replicate 13 0 @ ?tail"
    unfolding long_cmdline_facts(1) name_mem_mk_header [OF l]
    by (simp add: example_name_def)
  have z1: "(0 :: byte) \<notin> set (replicate 2048 65 @ replicate 4 66 @ map of_char ''dev'')"
    and z2: "(0 :: byte) \<notin> set (map of_char ''dev'')"
    by simp_all
  show "c_string (drop 28 (take sizeof_hdr long_cmdline_image)) =
     Some (replicate 2048 65 @ replicate 4 66 @ map of_char ''dev'')"
    unfolding m1 c_string_def
    by (simp only: takeWhile_until_zeros [OF z1]) simp
  show "c_string (drop 2080 (take sizeof_hdr long_cmdline_image)) = Some (map of_char ''dev'')"
    unfolding m2 c_string_def
    by (simp only: takeWhile_until_zeros [OF z2]) simp
qed

text \<open>
  Claim C8 does not hold for the code. With a command line of 2048 bytes without a NUL,
  the \<^verbatim>\<open>%s\<close> of the final report reads on through \<open>tags_addr\<close> into \<open>name\<close>: the string
  reported as command line has 2055 bytes, more than the buffer holds.
\<close>

theorem long_cmdline_overread:
  "cmdline (hdr_of_bytes (take sizeof_hdr long_cmdline_image)) = replicate 2048 65 \<and>
   fst (main ''unpack_vendor_boot'' [image_path] ok_env (image_world long_cmdline_image)) =
     EXIT_SUCCESS \<and>
   Stdout (Msg_cmdline (replicate 2048 65 @ replicate 4 66 @ map of_char ''dev''))
     \<in> set (trace (snd (main ''unpack_vendor_boot'' [image_path] ok_env
          (image_world long_cmdline_image)))) \<and>
   VENDOR_BOOT_ARGS_SIZE <
     length (replicate 2048 (65 :: byte) @ replicate 4 66 @ map of_char ''dev'')"
proof -
  let ?h = "hdr_of_bytes (take sizeof_hdr long_cmdline_image)"
  have a: "ALIGN (word_of_int VENDOR_HEADER_SIZE) (page_size ?h) = Some 4096"
    and b: "ALIGN (vendor_ramdisk_size ?h) (page_size ?h) = Some 4096"
    and n: "10 = unat (vendor_ramdisk_size ?h)" "(10 :: nat) \<noteq> 0"
      "unat (4096 :: u32) + 10 \<le> length long_cmdline_image"
    and m: "5 = unat (dtb_size ?h)" "(5 :: nat) \<noteq> 0"
      "unat (4096 :: u32) + unat (4096 :: u32) + 5 \<le> length long_cmdline_image"
    by (simp_all add: long_cmdline_facts(4,5) example_ALIGN)
  note run = main_extracts [where app = "''unpack_vendor_boot''",
      OF image_world_simps(1) long_cmdline_facts(3,2) no_faults_ok_env refl a b n m
        image_world_simps(3) long_cmdline_strings]
  show ?thesis
    unfolding run by (simp add: long_cmdline_facts(5) VENDOR_BOOT_ARGS_SIZE_def)
qed

subsection \<open>The reads of a run and the offsets of the specification\<close>

lemma spec_align_eq:
  assumes "0 < page"
  shows "spec_align sz page = (sz + page - 1) div page * page"
  by (simp add: spec_align_def ceil_nat [OF assms])

lemma spec_input_io_header_size:
  "spec_input_io (h\<lparr>header_size := x\<rparr>) = spec_input_io h"
  by (simp add: spec_input_io_def)

lemma main_input_io_zero_page:
  assumes "page_size h = 0"
  shows "main_input_io h = [Fread 0 2112]"
  using assms by (simp add: main_input_io_def ALIGN_def PAGES_def sizeof_hdr_eq)

lemma main_input_io_nowrap:
  assumes "page_size h \<noteq> 0" "2112 + unat (page_size h) \<le> 2 ^ 32"
    "unat (vendor_ramdisk_size h) + unat (page_size h) \<le> 2 ^ 32"
  shows "main_input_io h = spec_input_io h"
proof -
  have pos: "0 < unat (page_size h)"
    using assms(1) by (simp add: unat_gt_0)
  have "unat (word_of_int VENDOR_HEADER_SIZE :: u32) + unat (page_size h) \<le> 2 ^ 32"
    using assms(2) by (simp only: unat_VENDOR_HEADER_SIZE sizeof_hdr_eq)
  from ALIGN_unat [OF assms(1) this]
  obtain a where a: "ALIGN (word_of_int VENDOR_HEADER_SIZE) (page_size h) = Some a"
    "unat a = spec_align 2112 (unat (page_size h))"
    by (auto simp: spec_align_eq [OF pos] unat_VENDOR_HEADER_SIZE sizeof_hdr_eq)
  from ALIGN_unat [OF assms(1,3)]
  obtain b where b: "ALIGN (vendor_ramdisk_size h) (page_size h) = Some b"
    "unat b = spec_align (unat (vendor_ramdisk_size h)) (unat (page_size h))"
    by (auto simp: spec_align_eq [OF pos])
  show ?thesis
    by (simp add: main_input_io_def spec_input_io_def Let_def a b sizeof_hdr_eq)
qed

lemma skip_header_success:
  "fst (main_skip_header e h raw p f w) = EXIT_SUCCESS \<Longrightarrow> page_size h \<noteq> 0"
  by (auto simp: main_skip_header_def ALIGN_def PAGES_def)

lemma main_success_page_size:
  assumes "files w p = Some img" "fst (main app [p] e w) = EXIT_SUCCESS"
  shows "page_size (hdr_of_bytes (take sizeof_hdr img)) \<noteq> 0"
  using assms
  by (auto simp: main_def parse_args_def fopen_r_def Let_def split_beta
      dest!: file_read_Some skip_header_success
      split: option.splits if_splits read_result.splits)

lemma main_reads_spec:
  assumes f: "files w p = Some img"
    and h: "h = hdr_of_bytes (take sizeof_hdr img)"
    and nw: "2112 + unat (page_size h) \<le> 2 ^ 32"
      "unat (vendor_ramdisk_size h) + unat (page_size h) \<le> 2 ^ 32"
  shows "\<exists>xs. input_io (snd (main app [p] e w)) = input_io w @ xs \<and>
           prefix xs (spec_input_io h) \<and>
           (fst (main app [p] e w) = EXIT_SUCCESS \<longrightarrow> xs = spec_input_io h)"
proof -
  let ?r = "main app [p] e w"
  from main_io_lo [of w app "[p]" e]
  obtain xs where xs: "input_io (snd ?r) = input_io w @ xs"
    by (auto simp: prefix_def)
  from main_io_hi [OF f, of app e] have pre: "prefix xs (main_input_io h)"
    by (simp add: xs h)
  have "prefix xs (spec_input_io h)"
  proof (cases "page_size h = 0")
    case True
    have "prefix [Fread 0 2112] (spec_input_io h)"
      by (simp add: spec_input_io_def Let_def)
    with pre show ?thesis
      unfolding main_input_io_zero_page [OF True] by (rule prefix_order.trans)
  next
    case False
    from pre show ?thesis
      by (simp only: main_input_io_nowrap [OF False nw])
  qed
  moreover have "xs = spec_input_io h" if ok: "fst ?r = EXIT_SUCCESS"
  proof -
    from main_success_page_size [OF f ok] have "page_size h \<noteq> 0"
      unfolding h .
    from main_input_io_nowrap [OF this nw] main_io_all [OF f ok] show ?thesis
      by (simp add: xs h)
  qed
  ultimately show ?thesis using xs by blast
qed

lemma header_size_replaced:
  assumes "length bs = 4" "sizeof_hdr \<le> length I"
  shows "length (take 2096 I @ bs @ drop 2100 I) = length I"
    "take 8 (take 2096 I @ bs @ drop 2100 I) = take 8 I"
    "drop 2080 (take sizeof_hdr (take 2096 I @ bs @ drop 2100 I)) =
       take 16 (drop 2080 I) @ bs @ take 12 (drop 2100 I)"
  using assms by (simp_all add: sizeof_hdr_eq min_def take_drop)

lemma example_image_name:
  "take 16 (drop 2080 example_image) = example_name"
  by (simp add: example_image_def example_hdr_facts(1) [unfolded sizeof_hdr_eq] example_hdr_def
      name_mem_mk_header magic_no_nul example_lengths)

lemma example_like_run_succeeds:
  assumes mg: "take 8 I = VENDOR_BOOT_MAGIC" and len: "length I = 8197"
    and ps: "page_size (hdr_of_bytes (take sizeof_hdr I)) = 4096"
    and rs: "vendor_ramdisk_size (hdr_of_bytes (take sizeof_hdr I)) = 10"
    and ds: "dtb_size (hdr_of_bytes (take sizeof_hdr I)) = 5"
    and z2: "0 \<in> set (drop 2080 (take sizeof_hdr I))"
  shows "fst (main ''unpack_vendor_boot'' [image_path] ok_env (image_world I)) = EXIT_SUCCESS"
proof -
  let ?h = "hdr_of_bytes (take sizeof_hdr I)"
  have a: "ALIGN (word_of_int VENDOR_HEADER_SIZE) (page_size ?h) = Some 4096"
    and b: "ALIGN (vendor_ramdisk_size ?h) (page_size ?h) = Some 4096"
    and n: "10 = unat (vendor_ramdisk_size ?h)" and m: "5 = unat (dtb_size ?h)"
    by (simp_all add: ps rs ds example_ALIGN)
  have l: "sizeof_hdr \<le> length I" "(10 :: nat) \<noteq> 0" "unat (4096 :: u32) + 10 \<le> length I"
    "(5 :: nat) \<noteq> 0" "unat (4096 :: u32) + unat (4096 :: u32) + 5 \<le> length I"
    by (simp_all add: len sizeof_hdr_eq)
  have "set (drop 2080 (take sizeof_hdr I)) \<subseteq> set (drop 28 (take sizeof_hdr I))"
    by (rule set_drop_subset_set_drop) simp
  then have z1: "0 \<in> set (drop 28 (take sizeof_hdr I))"
    using z2 by auto
  note run = main_extracts [where app = "''unpack_vendor_boot''",
      OF image_world_simps(1) l(1) mg no_faults_ok_env refl a b
        n l(2,3) m l(4,5) image_world_simps(3) c_string_Some [OF z1] c_string_Some [OF z2]]
  show ?thesis unfolding run by simp
qed

lemmas example_image_built =
  example_built_facts [OF example_image_def [unfolded example_hdr_def append_assoc]]

lemma example_run_succeeds:
  "fst (main ''unpack_vendor_boot'' [image_path] ok_env (image_world example_image)) =
     EXIT_SUCCESS"
proof (rule example_like_run_succeeds)
  show "0 \<in> set (drop 2080 (take sizeof_hdr example_image))"
    using example_hdr_facts(6) by (simp add: example_image_facts(1) offsetof_simps)
qed (simp_all add: example_image_built(1,2) example_mk_header_fields example_image_facts(2))

lemma example_header_size_replaced_run_succeeds:
  "fst (main ''unpack_vendor_boot'' [image_path] ok_env
     (image_world (take 2096 example_image @ [1, 2, 3, 4] @ drop 2100 example_image))) =
     EXIT_SUCCESS"
proof (rule example_like_run_succeeds)
  let ?I = "take 2096 example_image @ [1, 2, 3, 4] @ drop 2100 example_image"
  have l: "length [1, 2, 3, 4 :: byte] = 4" "sizeof_hdr \<le> length example_image"
    "2100 \<le> length example_image"
    by (simp_all add: example_image_facts(2) sizeof_hdr_eq)
  note r = header_size_replaced [OF l(1,2)]
  show "take 8 ?I = VENDOR_BOOT_MAGIC"
    by (simp only: r(2) example_image_built(2))
  show "length ?I = 8197"
    by (simp only: r(1) example_image_facts(2))
  show "page_size (hdr_of_bytes (take sizeof_hdr ?I)) = 4096"
    "vendor_ramdisk_size (hdr_of_bytes (take sizeof_hdr ?I)) = 10"
    "dtb_size (hdr_of_bytes (take sizeof_hdr ?I)) = 5"
    unfolding header_size_bytes_unused [OF l(1,3)]
    by (simp_all add: example_image_built(1) example_mk_header_fields)
  show "0 \<in> set (drop 2080 (take sizeof_hdr ?I))"
    unfolding r(3) example_image_name by (simp add: example_name_def)
qed

lemma example_spec_input_io:
  "spec_input_io (hdr_of_bytes (take sizeof_hdr example_image)) =
     [Fread 0 2112, Fseek 4096, Fread 4096 10, Fseek 8192, Fread 8192 5]"
  by (simp add: spec_input_io_def Let_def spec_align_eq example_image_built(1)
      example_mk_header_fields)

lemmas wrap_page_facts =
  example_built_facts [of wrap_page_image _ _ _ _ "[]", unfolded append_Nil2,
    OF wrap_page_image_def]

lemma wrap_page_ALIGN:
  "ALIGN (word_of_int VENDOR_HEADER_SIZE) 4294967295 = Some 0"
  "ALIGN 10 4294967295 = Some 0"
  by (simp_all add: ALIGN_def PAGES_def VENDOR_HEADER_SIZE_def)

lemma wrap_page_run:
  "main ''unpack_vendor_boot'' [image_path] ok_env (image_world wrap_page_image) =
     (EXIT_SUCCESS,
      \<lparr>files = [image_path \<mapsto> wrap_page_image,
                VENDOR_RAMDISK \<mapsto> take 10 wrap_page_image,
                VENDOR_DTB \<mapsto> take 5 wrap_page_image],
       trace =
         [Fopen_r image_path, Stdout Msg_reading_header, Fread 0 2112, Fseek 0,
          Stdout Msg_reading_ramdisk, Fread 0 10, Fopen_w VENDOR_RAMDISK,
          Fwrite VENDOR_RAMDISK 10, Fclose VENDOR_RAMDISK, Fseek 0,
          Stdout Msg_reading_dtb, Fread 0 5, Fopen_w VENDOR_DTB,
          Fwrite VENDOR_DTB 5,
          Stdout (Msg_cmdline (map of_char ''quiet'')),
          Stdout (Msg_product_name (map of_char ''dev'')),
          Fclose VENDOR_DTB, Fclose image_path]\<rparr>)"
proof -
  let ?h = "hdr_of_bytes (take sizeof_hdr wrap_page_image)"
  have a: "ALIGN (word_of_int VENDOR_HEADER_SIZE) (page_size ?h) = Some 0"
    and b: "ALIGN (vendor_ramdisk_size ?h) (page_size ?h) = Some 0"
    and n: "10 = unat (vendor_ramdisk_size ?h)" and m: "5 = unat (dtb_size ?h)"
    by (simp_all add: wrap_page_facts(1) example_mk_header_fields wrap_page_ALIGN)
  have l: "(10 :: nat) \<noteq> 0" "unat (0 :: u32) + 10 \<le> length wrap_page_image"
    "(5 :: nat) \<noteq> 0" "unat (0 :: u32) + unat (0 :: u32) + 5 \<le> length wrap_page_image"
    by (simp_all add: wrap_page_facts(4))
  have nm: "drop 2080 (take sizeof_hdr wrap_page_image) =
      example_name @ le_bytes 4 2112 @ le_bytes 4 5 @ le_bytes 8 0"
    by (simp add: wrap_page_facts(1) name_mem_mk_header magic_no_nul example_lengths)
  have z2: "0 \<in> set (drop 2080 (take sizeof_hdr wrap_page_image))"
    unfolding nm by (simp add: example_name_def)
  have "set (drop 2080 (take sizeof_hdr wrap_page_image)) \<subseteq>
      set (drop 28 (take sizeof_hdr wrap_page_image))"
    by (rule set_drop_subset_set_drop) simp
  then have z1: "0 \<in> set (drop 28 (take sizeof_hdr wrap_page_image))"
    using z2 by auto
  have s2: "takeWhile (\<lambda>b. b \<noteq> 0) (drop 2080 (take sizeof_hdr wrap_page_image)) =
      map of_char ''dev''"
    unfolding nm by (simp add: example_name_def)
  have s1: "takeWhile (\<lambda>b. b \<noteq> 0) (drop 28 (take sizeof_hdr wrap_page_image)) =
      map of_char ''quiet''"
    by (simp add: wrap_page_facts(1) mk_header_def magic_no_nul example_cmdline_def)
  note run = main_extracts [where app = "''unpack_vendor_boot''",
      OF image_world_simps(1) wrap_page_facts(3,2) no_faults_ok_env refl a b
        n l(1,2) m l(3,4) image_world_simps(3) c_string_Some [OF z1] c_string_Some [OF z2]]
  show ?thesis
    unfolding run s1 s2 by (simp add: image_world_def sizeof_hdr_eq)
qed

text \<open>
  Claim C2, amended. Let the 32-bit sums \<open>2112 + page_size\<close> and
  \<open>vendor_ramdisk_size + page_size\<close> of the header not exceed \<open>2^32\<close>. Then in every run on
  the image, the reads and seeks on the image are an initial part of: the header of 2112
  bytes at offset 0; a seek to \<open>ceil(2112 / page_size) * page_size\<close> and a read of
  \<open>vendor_ramdisk_size\<close> bytes there; a seek to that offset plus
  \<open>ceil(vendor_ramdisk_size / page_size) * page_size\<close> and a read of \<open>dtb_size\<close> bytes there.
  A run that exits with success has performed all of them. The \<open>header_size\<close> field has no
  part in it: on an image that differs only in the four bytes of that field, every run
  performs an initial part of the same reads and seeks, with the same offsets and lengths,
  and all of them when it exits with success.
\<close>

theorem segment_reads:
  assumes "files w p = Some img"
    and "h = hdr_of_bytes (take sizeof_hdr img)"
    and "2112 + unat (page_size h) \<le> 2 ^ 32"
    and "unat (vendor_ramdisk_size h) + unat (page_size h) \<le> 2 ^ 32"
  shows "(\<exists>xs. input_io (snd (main app [p] e w)) = input_io w @ xs \<and>
            prefix xs (spec_input_io h) \<and>
            (fst (main app [p] e w) = EXIT_SUCCESS \<longrightarrow> xs = spec_input_io h)) \<and>
         (\<forall>bs w'. length bs = 4 \<and> offsetof ''header_size'' + 4 \<le> length img \<and>
            files w' p = Some (take (offsetof ''header_size'') img @ bs @
                               drop (offsetof ''header_size'' + 4) img) \<longrightarrow>
            (\<exists>xs. input_io (snd (main app [p] e w')) = input_io w' @ xs \<and>
               prefix xs (spec_input_io h) \<and>
               (fst (main app [p] e w') = EXIT_SUCCESS \<longrightarrow> xs = spec_input_io h)))"
proof (intro conjI allI impI)
  show "\<exists>xs. input_io (snd (main app [p] e w)) = input_io w @ xs \<and>
      prefix xs (spec_input_io h) \<and>
      (fst (main app [p] e w) = EXIT_SUCCESS \<longrightarrow> xs = spec_input_io h)"
    using assms by (rule main_reads_spec)
next
  fix bs :: "byte list" and w' :: world
  let ?img = "take 2096 img @ bs @ drop 2100 img"
  let ?h = "hdr_of_bytes (take sizeof_hdr ?img)"
  assume "length bs = 4 \<and> offsetof ''header_size'' + 4 \<le> length img \<and>
    files w' p = Some (take (offsetof ''header_size'') img @ bs @
                       drop (offsetof ''header_size'' + 4) img)"
  then have bs: "length bs = 4" "2100 \<le> length img" and f: "files w' p = Some ?img"
    by (simp_all add: offsetof_def hdr_layout)
  have h': "?h = h\<lparr>header_size := le32 bs\<rparr>"
    unfolding assms(2) by (rule header_size_bytes_unused [OF bs])
  have nw: "2112 + unat (page_size ?h) \<le> 2 ^ 32"
    "unat (vendor_ramdisk_size ?h) + unat (page_size ?h) \<le> 2 ^ 32"
    using assms(3,4) unfolding h' by simp_all
  from main_reads_spec [OF f refl nw, of app e]
  show "\<exists>xs. input_io (snd (main app [p] e w')) = input_io w' @ xs \<and>
      prefix xs (spec_input_io h) \<and>
      (fst (main app [p] e w') = EXIT_SUCCESS \<longrightarrow> xs = spec_input_io h)"
    by (simp only: h' spec_input_io_header_size)
qed

text \<open>
  The theorem on the example image: the run performs exactly the five calls, at the offsets
  4096 and 8192, and so does the run on the image whose \<open>header_size\<close> bytes are replaced by
  1, 2, 3, 4.
\<close>

theorem segment_reads_witness:
  "input_io (snd (main ''unpack_vendor_boot'' [image_path] ok_env
      (image_world example_image))) =
     [Fread 0 2112, Fseek 4096, Fread 4096 10, Fseek 8192, Fread 8192 5] \<and>
   input_io (snd (main ''unpack_vendor_boot'' [image_path] ok_env
      (image_world (take (offsetof ''header_size'') example_image @ [1, 2, 3, 4] @
                    drop (offsetof ''header_size'' + 4) example_image)))) =
     [Fread 0 2112, Fseek 4096, Fread 4096 10, Fseek 8192, Fread 8192 5]"
proof -
  let ?I = "take (offsetof ''header_size'') example_image @ [1, 2, 3, 4] @
            drop (offsetof ''header_size'' + 4) example_image"
  have nw: "2112 + unat (page_size (hdr_of_bytes (take sizeof_hdr example_image))) \<le> 2 ^ 32"
    "unat (vendor_ramdisk_size (hdr_of_bytes (take sizeof_hdr example_image))) +
     unat (page_size (hdr_of_bytes (take sizeof_hdr example_image))) \<le> 2 ^ 32"
    by (simp_all add: example_image_built(1) example_mk_header_fields)
  note t = segment_reads [of "image_world example_image" image_path example_image _
      "''unpack_vendor_boot''" ok_env, OF image_world_simps(1) refl nw]
  from t [THEN conjunct1] example_run_succeeds
  have 1: "input_io (snd (main ''unpack_vendor_boot'' [image_path] ok_env
      (image_world example_image))) =
     [Fread 0 2112, Fseek 4096, Fread 4096 10, Fseek 8192, Fread 8192 5]"
    by (auto simp: example_spec_input_io input_io_def image_world_simps(2))
  have "length [1, 2, 3, 4 :: byte] = 4 \<and> offsetof ''header_size'' + 4 \<le> length example_image \<and>
      files (image_world ?I) image_path = Some ?I"
    by (simp add: offsetof_def hdr_layout example_image_facts(2) image_world_simps(1))
  from t [THEN conjunct2, THEN spec, THEN spec, THEN mp, OF this]
    example_header_size_replaced_run_succeeds
  have 2: "input_io (snd (main ''unpack_vendor_boot'' [image_path] ok_env (image_world ?I))) =
     [Fread 0 2112, Fseek 4096, Fread 4096 10, Fseek 8192, Fread 8192 5]"
    by (auto simp: example_spec_input_io input_io_def image_world_simps(2) offsetof_def
        hdr_layout)
  from 1 2 show ?thesis by (rule conjI)
qed

text \<open>
  Claim C2 as stated fails where the alignment wraps. On an image whose header declares
  page size \<open>2^32 - 1\<close>, a ramdisk of 10 bytes and a dtb of 5 bytes, the aligned size of the
  header is \<open>2^32 - 1\<close>, and so is that of the ramdisk; but \<open>ALIGN\<close> computes 0 for both, and
  the run seeks to offset 0 twice, reads both segments from the start of the header and
  exits with success.
\<close>

theorem wrap_page_reads:
  "page_size (hdr_of_bytes (take sizeof_hdr wrap_page_image)) = 4294967295 \<and>
   vendor_ramdisk_size (hdr_of_bytes (take sizeof_hdr wrap_page_image)) = 10 \<and>
   dtb_size (hdr_of_bytes (take sizeof_hdr wrap_page_image)) = 5 \<and>
   spec_align 2112 4294967295 = 4294967295 \<and>
   spec_align 10 4294967295 = 4294967295 \<and>
   spec_input_io (hdr_of_bytes (take sizeof_hdr wrap_page_image)) =
     [Fread 0 2112, Fseek 4294967295, Fread 4294967295 10,
      Fseek 8589934590, Fread 8589934590 5] \<and>
   fst (main ''unpack_vendor_boot'' [image_path] ok_env (image_world wrap_page_image)) =
     EXIT_SUCCESS \<and>
   input_io (snd (main ''unpack_vendor_boot'' [image_path] ok_env
      (image_world wrap_page_image))) =
     [Fread 0 2112, Fseek 0, Fread 0 10, Fseek 0, Fread 0 5] \<and>
   files (snd (main ''unpack_vendor_boot'' [image_path] ok_env (image_world wrap_page_image)))
     VENDOR_RAMDISK = Some (take 10 wrap_page_image)"
proof -
  have al: "spec_align 2112 4294967295 = 4294967295" "spec_align 10 4294967295 = 4294967295"
    by (simp_all add: spec_align_eq)
  have f: "page_size (hdr_of_bytes (take sizeof_hdr wrap_page_image)) = 4294967295"
    "vendor_ramdisk_size (hdr_of_bytes (take sizeof_hdr wrap_page_image)) = 10"
    "dtb_size (hdr_of_bytes (take sizeof_hdr wrap_page_image)) = 5"
    by (simp_all add: wrap_page_facts(1) example_mk_header_fields)
  have s: "spec_input_io (hdr_of_bytes (take sizeof_hdr wrap_page_image)) =
     [Fread 0 2112, Fseek 4294967295, Fread 4294967295 10,
      Fseek 8589934590, Fread 8589934590 5]"
    by (simp add: spec_input_io_def Let_def f al)
  show ?thesis
    unfolding wrap_page_run
    by (simp add: al f s input_io_def VENDOR_names_distinct image_path_distinct)
qed

end
